theory Spec2Isabelle
  imports Main
begin

section \<open>JavaScript values the OAuth relay works with\<close>

text \<open>
  The sources hold the component \<^verbatim>\<open>OAuthGoogle\<close> twice: \<^verbatim>\<open>src/unnamed/part_001\<close>, which posts
  the enhanced payload and goes on to the payment page, and \<^verbatim>\<open>src/src/components/Oauth.tsx\<close>,
  an earlier state of the same component from before the payment page existed. A definition
  without a suffix follows the first; a definition ending in \<open>_Oauth_tsx\<close> follows the second
  where its text differs. The payment page \<^verbatim>\<open>Payment\<close> is the second part of
  \<^verbatim>\<open>src/src/App.tsx\<close>.

  The components handle values of type \<^verbatim>\<open>string | null\<close>; they are modelled as
  \<^typ>\<open>string option\<close>, \<open>None\<close> being \<^verbatim>\<open>null\<close>. A \<^typ>\<open>string\<close> stands for a JavaScript string
  whose code units are all below 256.
\<close>

definition truthy :: "string option \<Rightarrow> bool" where
  \<comment> \<open>JavaScript truthiness of a \<^verbatim>\<open>string | null\<close>: \<^verbatim>\<open>null\<close> and \<^verbatim>\<open>''\<close> are falsy.\<close>
  "truthy v = (case v of None \<Rightarrow> False | Some s \<Rightarrow> s \<noteq> [])"

definition or_else :: "string option \<Rightarrow> string \<Rightarrow> string" where
  \<comment> \<open>\<^verbatim>\<open>v || d\<close> for a string default \<^verbatim>\<open>d\<close>.\<close>
  "or_else v d = (case v of None \<Rightarrow> d | Some s \<Rightarrow> if s = [] then d else s)"

definition or_null :: "string option \<Rightarrow> string option" where
  \<comment> \<open>\<^verbatim>\<open>v || null\<close>.\<close>
  "or_null v = (case v of None \<Rightarrow> None | Some s \<Rightarrow> if s = [] then None else Some s)"

definition or_opt :: "string option \<Rightarrow> string option \<Rightarrow> string option" where
  \<comment> \<open>\<^verbatim>\<open>a || b\<close> for two \<^verbatim>\<open>string | null\<close> operands.\<close>
  "or_opt a b = (if truthy a then a else b)"

type_synonym URLSearchParams = "(string \<times> string) list"

definition searchParams_get :: "URLSearchParams \<Rightarrow> string \<Rightarrow> string option" where
  \<comment> \<open>\<^verbatim>\<open>URLSearchParams.get\<close>: the value of the first pair with that name, or \<^verbatim>\<open>null\<close>.\<close>
  "searchParams_get qs k = map_of qs k"

fun searchParams_set :: "string \<Rightarrow> string \<Rightarrow> URLSearchParams \<Rightarrow> URLSearchParams" where
  \<comment> \<open>\<^verbatim>\<open>URLSearchParams.set\<close>: the first pair with that name takes the value and the other
      pairs with that name go; without such a pair, the pair is appended.\<close>
  "searchParams_set k v [] = [(k, v)]"
| "searchParams_set k v ((k', v') # qs) =
     (if k' = k then (k, v) # filter (\<lambda>(n, _). n \<noteq> k) qs
      else (k', v') # searchParams_set k v qs)"

subsection \<open>Percent-encoding\<close>

definition hex_upper :: "nat \<Rightarrow> char" where
  "hex_upper d = (''0123456789ABCDEF'') ! (d mod 16)"

definition pct :: "nat \<Rightarrow> string" where
  \<comment> \<open>One byte as \<^verbatim>\<open>%XX\<close>.\<close>
  "pct b = [CHR ''%'', hex_upper (b div 16), hex_upper (b mod 16)]"

definition utf8_pct :: "char \<Rightarrow> string" where
  \<comment> \<open>The UTF-8 bytes of a code unit below 256, percent-encoded: one byte below 128,
      two bytes from 128 on.\<close>
  "utf8_pct c =
     (let n = (of_char c :: nat)
      in if n < 128 then pct n else pct (192 + n div 64) @ pct (128 + n mod 64))"

definition is_alnum :: "char \<Rightarrow> bool" where
  "is_alnum c =
     (let n = (of_char c :: nat)
      in (48 \<le> n \<and> n \<le> 57) \<or> (65 \<le> n \<and> n \<le> 90) \<or> (97 \<le> n \<and> n \<le> 122))"

definition uri_unreserved :: "char \<Rightarrow> bool" where
  \<comment> \<open>The characters \<^verbatim>\<open>encodeURIComponent\<close> leaves alone: letters, digits and
      \<^verbatim>\<open>- _ . ! ~ * ' ( )\<close>.\<close>
  "uri_unreserved c = (is_alnum c \<or> c \<in> set (''-_.!~*()'' @ [CHR 0x27]))"

definition encodeURIComponent :: "string \<Rightarrow> string" where
  "encodeURIComponent s = concat (map (\<lambda>c. if uri_unreserved c then [c] else utf8_pct c) s)"

definition form_encode :: "string \<Rightarrow> string" where
  \<comment> \<open>The \<^verbatim>\<open>application/x-www-form-urlencoded\<close> serialisation of a name or a value, which
      \<^verbatim>\<open>URL.toString\<close> uses for \<^verbatim>\<open>searchParams\<close>: a space is \<^verbatim>\<open>+\<close>, letters, digits and
      \<^verbatim>\<open>* - . _\<close> stay, the rest is percent-encoded.\<close>
  "form_encode s =
     concat (map (\<lambda>c. if c = CHR '' '' then ''+''
                       else if is_alnum c \<or> c \<in> set ''*-._'' then [c]
                       else utf8_pct c) s)"

fun intercalate :: "string \<Rightarrow> string list \<Rightarrow> string" where
  "intercalate sep [] = []"
| "intercalate sep [x] = x"
| "intercalate sep (x # y # ys) = x @ sep @ intercalate sep (y # ys)"

record URL =
  base :: string
  pathname :: string
  searchParams :: URLSearchParams

definition URL_toString :: "URL \<Rightarrow> string" where
  \<comment> \<open>\<^verbatim>\<open>url.toString()\<close> of a URL without fragment: what precedes the path (scheme and
      authority), the path, and the query when there is one.\<close>
  "URL_toString u =
     base u @ pathname u @
     (if searchParams u = [] then []
      else ''?'' @ intercalate ''&''
             (map (\<lambda>(k, v). form_encode k @ ''='' @ form_encode v) (searchParams u)))"

subsection \<open>JSON text of an object of strings\<close>

type_synonym js_object = "(string \<times> string option) list"

definition hex_lower :: "nat \<Rightarrow> char" where
  "hex_lower d = (''0123456789abcdef'') ! (d mod 16)"

definition json_escape :: "char \<Rightarrow> string" where
  \<comment> \<open>\<^verbatim>\<open>JSON.stringify\<close> on one code unit of a string: the quote and the backslash are
      escaped, control characters take their short escape or \<^verbatim>\<open>\u00xx\<close>.\<close>
  "json_escape c =
     (let n = (of_char c :: nat)
      in if c = CHR ''\"'' then [CHR 0x5C, CHR ''\"'']
         else if c = CHR 0x5C then [CHR 0x5C, CHR 0x5C]
         else if n = 8 then [CHR 0x5C, CHR ''b'']
         else if n = 9 then [CHR 0x5C, CHR ''t'']
         else if n = 10 then [CHR 0x5C, CHR ''n'']
         else if n = 12 then [CHR 0x5C, CHR ''f'']
         else if n = 13 then [CHR 0x5C, CHR ''r'']
         else if n < 32 then [CHR 0x5C, CHR ''u'', CHR ''0'', CHR ''0'',
                              hex_lower (n div 16), hex_lower (n mod 16)]
         else [c])"

definition JSON_quote :: "string \<Rightarrow> string" where
  "JSON_quote s = CHR ''\"'' # concat (map json_escape s) @ [CHR ''\"'']"

definition JSON_member :: "string \<times> string option \<Rightarrow> string" where
  "JSON_member m =
     JSON_quote (fst m) @ '':'' @ (case snd m of None \<Rightarrow> ''null'' | Some s \<Rightarrow> JSON_quote s)"

definition JSON_stringify :: "js_object \<Rightarrow> string" where
  \<comment> \<open>\<^verbatim>\<open>JSON.stringify\<close> of an object whose properties hold \<^verbatim>\<open>string | null\<close>: the
      members in property order, \<^verbatim>\<open>null\<close> members included.\<close>
  "JSON_stringify obj = ''{'' @ intercalate '','' (map JSON_member obj) @ ''}''"

subsection \<open>Reading the JSON text back\<close>

text \<open>
  \<^verbatim>\<open>JSON.parse\<close> is modelled on the texts that denote an object whose members are strings or
  \<^verbatim>\<open>null\<close>, which is what the declared type \<^verbatim>\<open>OAuthParams\<close> of the parsed value allows:
  white space between tokens, every string escape, members in any order, later duplicates
  overriding earlier ones. On any other text the reader gives \<open>None\<close>: for malformed text
  that is the \<^verbatim>\<open>SyntaxError\<close> the call throws. Texts of another shape (numbers, booleans,
  nested values, code units from 256 on) are outside the model: there the code goes on with
  the parsed value, where the model takes the branch of the thrown error. The login never
  writes such a text, and the properties below are about texts that the login wrote or
  about an empty storage.
\<close>

definition is_ws :: "char \<Rightarrow> bool" where
  "is_ws c = (c \<in> set [CHR '' '', CHR 0x09, CHR 0x0A, CHR 0x0D])"

definition skip_ws :: "string \<Rightarrow> string" where
  "skip_ws s = dropWhile is_ws s"

definition hex_value :: "char \<Rightarrow> nat option" where
  "hex_value c =
     (let n = (of_char c :: nat)
      in if 48 \<le> n \<and> n \<le> 57 then Some (n - 48)
         else if 97 \<le> n \<and> n \<le> 102 then Some (n - 87)
         else if 65 \<le> n \<and> n \<le> 70 then Some (n - 55)
         else None)"

definition hex4 :: "char \<Rightarrow> char \<Rightarrow> char \<Rightarrow> char \<Rightarrow> nat option" where
  "hex4 h1 h2 h3 h4 =
     (case (hex_value h1, hex_value h2, hex_value h3, hex_value h4) of
        (Some a, Some b, Some c, Some d) \<Rightarrow> Some (((a * 16 + b) * 16 + c) * 16 + d)
      | _ \<Rightarrow> None)"

definition json_unescape :: "char \<Rightarrow> char option" where
  \<comment> \<open>The character after a backslash, for the two-character escapes.\<close>
  "json_unescape e =
     (if e = CHR ''\"'' \<or> e = CHR 0x5C \<or> e = CHR ''/'' then Some e
      else if e = CHR ''b'' then Some (CHR 0x08)
      else if e = CHR ''t'' then Some (CHR 0x09)
      else if e = CHR ''n'' then Some (CHR 0x0A)
      else if e = CHR ''f'' then Some (CHR 0x0C)
      else if e = CHR ''r'' then Some (CHR 0x0D)
      else None)"

definition consed :: "char \<Rightarrow> (string \<times> string) option \<Rightarrow> (string \<times> string) option" where
  "consed c r = map_option (\<lambda>(s, rest). (c # s, rest)) r"

fun parse_chars :: "string \<Rightarrow> (string \<times> string) option" where
  \<comment> \<open>The characters of a string literal after its opening quote, up to the closing
      quote: the string and the text that follows.\<close>
  "parse_chars [] = None"
| "parse_chars (c # cs) =
     (if c = CHR ''\"'' then Some ([], cs)
      else if c = CHR 0x5C then
        (case cs of
           [] \<Rightarrow> None
         | e # es \<Rightarrow>
             if e = CHR ''u'' then
               (case es of
                  h1 # h2 # h3 # h4 # rest \<Rightarrow>
                    (case hex4 h1 h2 h3 h4 of
                       None \<Rightarrow> None
                     | Some n \<Rightarrow> if n < 256 then consed (char_of n) (parse_chars rest) else None)
                | _ \<Rightarrow> None)
             else
               (case json_unescape e of
                  None \<Rightarrow> None
                | Some ch \<Rightarrow> consed ch (parse_chars es)))
      else if (of_char c :: nat) < 32 then None
      else consed c (parse_chars cs))"

definition parse_value :: "string \<Rightarrow> (string option \<times> string) option" where
  \<comment> \<open>A member's value: a string literal or \<^verbatim>\<open>null\<close>.\<close>
  "parse_value s =
     (case s of
        [] \<Rightarrow> None
      | c # cs \<Rightarrow>
          if c = CHR ''\"'' then map_option (\<lambda>(v, rest). (Some v, rest)) (parse_chars cs)
          else if take 4 s = ''null'' then Some (None, drop 4 s)
          else None)"

definition parse_member :: "string \<Rightarrow> ((string \<times> string option) \<times> string) option" where
  \<comment> \<open>One \<^verbatim>\<open>"name": value\<close> and the text after it, white space skipped.\<close>
  "parse_member s =
     (case skip_ws s of
        [] \<Rightarrow> None
      | q # cs \<Rightarrow>
          if q \<noteq> CHR ''\"'' then None
          else (case parse_chars cs of
                  None \<Rightarrow> None
                | Some (k, r1) \<Rightarrow>
                    (case skip_ws r1 of
                       [] \<Rightarrow> None
                     | col # r2 \<Rightarrow>
                         if col \<noteq> CHR '':'' then None
                         else (case parse_value (skip_ws r2) of
                                 None \<Rightarrow> None
                               | Some (v, r3) \<Rightarrow> Some ((k, v), skip_ws r3)))))"

lemma parse_chars_shorter: "parse_chars s = Some (v, r) \<Longrightarrow> length r < length s"
proof (induction s arbitrary: v r rule: parse_chars.induct)
  case 1
  then show ?case by simp
next
  case (2 c cs)
  then show ?case
    by (fastforce simp: consed_def split: if_splits list.splits option.splits)
qed

lemma skip_ws_length: "length (skip_ws s) \<le> length s"
  by (simp add: skip_ws_def length_dropWhile_le)

lemma parse_value_shorter: "parse_value s = Some (v, r) \<Longrightarrow> length r < length s"
  by (cases s) (auto simp: parse_value_def dest: parse_chars_shorter split: if_splits)

lemma parse_member_shorter:
  assumes "parse_member s = Some (m, r)"
  shows "length r < length s"
proof -
  from assms obtain cs k r1 r2 v r3 where
    a: "skip_ws s = CHR ''\"'' # cs" and b: "parse_chars cs = Some (k, r1)" and
    c: "skip_ws r1 = CHR '':'' # r2" and d: "parse_value (skip_ws r2) = Some (v, r3)" and
    e: "r = skip_ws r3"
    by (auto simp: parse_member_def split: list.splits if_splits option.splits)
  have "length r \<le> length r3" using e skip_ws_length by simp
  also have "\<dots> < length (skip_ws r2)" using parse_value_shorter [OF d] .
  also have "\<dots> \<le> length r2" by (rule skip_ws_length)
  also have "\<dots> < length (skip_ws r1)" using c by simp
  also have "\<dots> \<le> length r1" by (rule skip_ws_length)
  also have "\<dots> < length cs" using parse_chars_shorter [OF b] .
  also have "\<dots> < length (skip_ws s)" using a by simp
  also have "\<dots> \<le> length s" by (rule skip_ws_length)
  finally show ?thesis .
qed

function parse_members :: "string \<Rightarrow> js_object option" where
  \<comment> \<open>The members after the opening brace, up to the closing brace, which must end the
      text apart from white space.\<close>
  "parse_members s =
     (case parse_member s of
        None \<Rightarrow> None
      | Some (m, r) \<Rightarrow>
          (case r of
             [] \<Rightarrow> None
           | c # r' \<Rightarrow>
               if c = CHR '','' then map_option ((#) m) (parse_members r')
               else if c = CHR ''}'' \<and> skip_ws r' = [] then Some [m]
               else None))"
  by pat_completeness auto
termination
proof (relation "measure length")
  show "wf (measure length)" by simp
next
  fix s x2 x y xa ys
  assume "parse_member s = Some x2" "(x, y) = x2" "y = xa # ys"
  then have "parse_member s = Some (x, xa # ys)" by simp
  from parse_member_shorter [OF this] show "(ys, s) \<in> measure length" by simp
qed

declare parse_members.simps [simp del]

definition is_digit :: "char \<Rightarrow> bool" where
  "is_digit c = (48 \<le> (of_char c :: nat) \<and> (of_char c :: nat) \<le> 57)"

definition index_value :: "string \<Rightarrow> nat" where
  "index_value k = foldl (\<lambda>a c. a * 10 + (of_char c - 48)) 0 k"

definition is_array_index :: "string \<Rightarrow> bool" where
  \<comment> \<open>A property name that is a canonical array index: JavaScript enumerates such
      properties first, in numeric order.\<close>
  "is_array_index k =
     (k \<noteq> [] \<and> list_all is_digit k \<and> (k = ''0'' \<or> hd k \<noteq> CHR ''0'') \<and>
      index_value k < 4294967295)"

definition obj_set :: "string \<Rightarrow> string option \<Rightarrow> js_object \<Rightarrow> js_object" where
  \<comment> \<open>Defining a property on an object kept in enumeration order: an existing property
      keeps its place, a new array index goes among the indices, any other new name goes
      last.\<close>
  "obj_set k v obj =
     (if k \<in> fst ` set obj then map (\<lambda>(k', v'). if k' = k then (k', v) else (k', v')) obj
      else if is_array_index k then
        takeWhile (\<lambda>(k', _). is_array_index k' \<and> index_value k' < index_value k) obj @
        [(k, v)] @
        dropWhile (\<lambda>(k', _). is_array_index k' \<and> index_value k' < index_value k) obj
      else obj @ [(k, v)])"

definition obj_get :: "js_object \<Rightarrow> string \<Rightarrow> string option" where
  \<comment> \<open>Reading a property; a missing property (\<^verbatim>\<open>undefined\<close>) reads like \<^verbatim>\<open>null\<close>, which is
      all the callers tell apart.\<close>
  "obj_get obj k = (case map_of obj k of None \<Rightarrow> None | Some v \<Rightarrow> v)"

definition JSON_parse :: "string \<Rightarrow> js_object option" where
  "JSON_parse s =
     (case skip_ws s of
        [] \<Rightarrow> None
      | c # r \<Rightarrow>
          if c \<noteq> CHR ''{'' then None
          else (case skip_ws r of
                  [] \<Rightarrow> None
                | d # r' \<Rightarrow>
                    if d = CHR ''}'' then (if skip_ws r' = [] then Some [] else None)
                    else map_option (\<lambda>ms. fold (\<lambda>(k, v). obj_set k v) ms [])
                           (parse_members r)))"

function decimal :: "nat \<Rightarrow> string" where
  \<comment> \<open>A non-negative integer in a template literal.\<close>
  "decimal n = (if n < 10 then [char_of (48 + n)] else decimal (n div 10) @ [char_of (48 + n mod 10)])"
  by pat_completeness auto
termination
  by (relation "measure id") auto

declare decimal.simps [simp del]

section \<open>Data of the flow\<close>

record OAuthParams =
  client_id :: "string option"
  redirect_uri :: "string option"
  response_type :: "string option"
  state :: "string option"
  code_challenge :: "string option"
  code_challenge_method :: "string option"
  scope :: "string option"

definition OAuthParams_entries :: "OAuthParams \<Rightarrow> js_object" where
  \<comment> \<open>The object of the literal in \<^verbatim>\<open>useEffect\<close>: its seven properties in the order written.\<close>
  "OAuthParams_entries p =
     [(''client_id'', client_id p), (''redirect_uri'', redirect_uri p),
      (''response_type'', response_type p), (''state'', state p),
      (''code_challenge'', code_challenge p),
      (''code_challenge_method'', code_challenge_method p), (''scope'', scope p)]"

definition as_OAuthParams :: "js_object \<Rightarrow> OAuthParams" where
  \<comment> \<open>An object read at the seven fields of the interface.\<close>
  "as_OAuthParams obj =
     \<lparr>client_id = obj_get obj ''client_id'', redirect_uri = obj_get obj ''redirect_uri'',
      response_type = obj_get obj ''response_type'', state = obj_get obj ''state'',
      code_challenge = obj_get obj ''code_challenge'',
      code_challenge_method = obj_get obj ''code_challenge_method'',
      scope = obj_get obj ''scope''\<rparr>"

record CallbackResponse =
  success :: bool
  message :: "string option"
  redirectUrl :: "string option"

record GoogleCredentials =
  access_token :: string
  refresh_token :: "string option"
  expires_in :: int
  token_type :: string
  cred_scope :: string

record GoogleProfile =
  profile_id :: string
  email :: string
  name :: string
  picture :: string
  email_verified :: bool
  profile_locale :: "string option"
  profile_hd :: "string option"

record ClientMetadata =
  timestamp :: string
  user_agent :: string
  screen_resolution :: string
  timezone :: string
  language :: string
  referrer :: string

text \<open>
  \<^verbatim>\<open>Session\<close> is the type of \<^verbatim>\<open>@supabase/supabase-js\<close>; the records below hold the fields
  that \<^verbatim>\<open>handleSupabaseCallback\<close> reads from it. \<open>user_metadata\<close> is an untyped dictionary
  in the library; its entries are taken at the types the \<^verbatim>\<open>GoogleProfile\<close> interface gives
  them. A field whose name an interface of the repository uses as well carries a prefix
  (\<open>session_expires_in\<close> for \<^verbatim>\<open>session.expires_in\<close>, \<open>u_email\<close> for \<^verbatim>\<open>session.user.email\<close>,
  \<open>meta_name\<close> for \<^verbatim>\<open>user_metadata.name\<close>); \<open>meta_custom_claims\<close> is \<open>None\<close> without
  \<^verbatim>\<open>custom_claims\<close> and otherwise holds its \<^verbatim>\<open>hd\<close>.
\<close>

record UserMetadata =
  meta_provider_id :: "string option"
  meta_full_name :: "string option"
  meta_name :: "string option"
  meta_avatar_url :: "string option"
  meta_picture :: "string option"
  meta_email_verified :: "bool option"
  meta_locale :: "string option"
  meta_custom_claims :: "string option option"

record User =
  u_id :: string
  u_email :: "string option"
  user_metadata :: UserMetadata

record Session =
  provider_token :: "string option"
  provider_refresh_token :: "string option"
  session_expires_in :: int
  session_token_type :: string
  user :: User
  granted_scope :: string

text \<open>
  Modelled from the spec: the field \<open>granted_scope\<close>. The spec's IdentitySession carries
  the scope the provider granted; the library's \<^verbatim>\<open>Session\<close> type is not part of the sources,
  and no code of the repository reads such a field.
\<close>

record EnhancedSessionData =
  session :: Session
  google_credentials :: GoogleCredentials
  google_profile :: GoogleProfile
  client_metadata :: ClientMetadata

record ClientEnv =
  location_origin :: string
  now_iso :: string
  navigator_userAgent :: string
  screen_width :: nat
  screen_height :: nat
  resolved_timeZone :: string
  navigator_language :: string
  document_referrer :: string

section \<open>Effects and component state\<close>

record signIn_request =
  provider :: string
  redirectTo :: string
  scopes :: "string option"
  queryParams :: "(string \<times> string) list"

datatype post_body = EnhancedBody EnhancedSessionData | SessionBody Session

record post_request =
  post_url :: string
  post_body :: post_body
  content_type :: string
  timeout :: nat

record verify_request =
  verify_url :: string
  verify_content_type :: string
  razorpay_payment_id :: "string option"
  razorpay_signature :: string

record checkout_options =
  opt_key :: string
  opt_amount :: nat
  opt_currency :: string
  opt_name :: string
  opt_description :: string
  prefill_email :: string
  theme_color :: string
  retry_enabled :: bool
  retry_max_count :: nat

datatype effect =
    SetItem string string
  | RemoveItem string
  | SignInWithOAuth signIn_request
  | AxiosPost post_request
  | Navigate string
  | LocationHref string
  | Fetch verify_request
  | Alert string
  | RazorpayOpen checkout_options

text \<open>
  The state of the \<^verbatim>\<open>OAuthGoogle\<close> component and of the browser around it: the three
  \<^verbatim>\<open>useState\<close> cells, the tab's \<^verbatim>\<open>sessionStorage\<close>, and the calls made to the outside in
  the order they were made. Console output is not recorded, and the storage is taken to
  be available: its calls do not throw.
\<close>

record component =
  isLoading :: bool
  oauthParams :: "OAuthParams option"
  error :: "string option"
  sessionStorage :: "string \<rightharpoonup> string"
  trace :: "effect list"

definition emit :: "effect \<Rightarrow> component \<Rightarrow> component" where
  "emit e c = c\<lparr>trace := trace c @ [e]\<rparr>"

definition setItem :: "string \<Rightarrow> string \<Rightarrow> component \<Rightarrow> component" where
  "setItem k v c = emit (SetItem k v) (c\<lparr>sessionStorage := (sessionStorage c)(k \<mapsto> v)\<rparr>)"

definition removeItem :: "string \<Rightarrow> component \<Rightarrow> component" where
  "removeItem k c = emit (RemoveItem k) (c\<lparr>sessionStorage := (sessionStorage c)(k := None)\<rparr>)"

definition getItem :: "component \<Rightarrow> string \<Rightarrow> string option" where
  "getItem c k = sessionStorage c k"

text \<open>What the awaited calls can come back with.\<close>

datatype signIn_result = SignInOk | SignInError string | SignInThrows

datatype getSession_result = GetSession "Session option" "string option" | GetSessionThrows

record axios_response =
  status :: nat
  data_message :: "string option"

text \<open>
  A fulfilled POST carries \<^verbatim>\<open>response.data\<close>: \<open>None\<close> when the body is \<^verbatim>\<open>null\<close>, so that reading
  a property of it throws; any other body is read at the fields of \<^verbatim>\<open>CallbackResponse\<close>.
\<close>

datatype post_result =
    PostFulfilled "CallbackResponse option"
  | PostAxiosError "axios_response option" string
  | PostOtherError

section \<open>Request capture and login\<close>

definition capture :: "URLSearchParams \<Rightarrow> OAuthParams" where
  \<comment> \<open>The object literal \<^verbatim>\<open>params\<close> of the mount effect.\<close>
  "capture urlParams =
     \<lparr>client_id = searchParams_get urlParams ''client_id'',
      redirect_uri = searchParams_get urlParams ''redirect_uri'',
      response_type = searchParams_get urlParams ''response_type'',
      state = searchParams_get urlParams ''state'',
      code_challenge = searchParams_get urlParams ''code_challenge'',
      code_challenge_method = searchParams_get urlParams ''code_challenge_method'',
      scope = searchParams_get urlParams ''scope''\<rparr>"

definition useEffect ::
  "string \<Rightarrow> URLSearchParams \<Rightarrow> (component \<Rightarrow> component) \<Rightarrow> component \<Rightarrow> component" where
  \<comment> \<open>The mount effect, the same text in both files; the third argument is the
      component's \<^verbatim>\<open>handleSupabaseCallback\<close> with its surroundings supplied.\<close>
  "useEffect currentPath urlParams callback c =
     (let on_callback_path = (\<lambda>c'. if currentPath = ''/auth/callback'' then callback c' else c')
      in if currentPath = ''/authorize'' then
           (let params = capture urlParams
            in if \<not> truthy (client_id params) \<or> \<not> truthy (redirect_uri params) \<or>
                  response_type params \<noteq> Some ''code''
               then c\<lparr>error := Some ''Invalid OAuth request: Missing required parameters''\<rparr>
               else on_callback_path (c\<lparr>oauthParams := Some params\<rparr>))
         else on_callback_path c)"

definition login_scopes :: string where
  "login_scopes =
     ''openid email profile https://www.googleapis.com/auth/analytics.readonly https://www.googleapis.com/auth/analytics.manage.users.readonly''"

definition login_with ::
  "signIn_request \<Rightarrow> (signIn_request \<Rightarrow> signIn_result) \<Rightarrow> component \<Rightarrow> component" where
  \<comment> \<open>The body both \<^verbatim>\<open>handleLogin\<close>s share; they differ in the sign-in request only.\<close>
  "login_with req signInWithOAuth c =
     (case oauthParams c of
        None \<Rightarrow> c\<lparr>error := Some ''No OAuth parameters found''\<rparr>
      | Some p \<Rightarrow>
          (let c1 = c\<lparr>isLoading := True, error := None\<rparr>;
               c2 = setItem ''oauth_params'' (JSON_stringify (OAuthParams_entries p)) c1;
               c3 = emit (SignInWithOAuth req) c2
           in case signInWithOAuth req of
                SignInOk \<Rightarrow> c3
              | SignInError msg \<Rightarrow> c3\<lparr>error := Some (''Login failed: '' @ msg), isLoading := False\<rparr>
              | SignInThrows \<Rightarrow>
                  c3\<lparr>error := Some ''An unexpected error occurred during login'',
                     isLoading := False\<rparr>))"

definition handleLogin ::
  "ClientEnv \<Rightarrow> (signIn_request \<Rightarrow> signIn_result) \<Rightarrow> component \<Rightarrow> component" where
  \<comment> \<open>\<^verbatim>\<open>handleLogin\<close> of \<^verbatim>\<open>src/unnamed/part_001\<close>.\<close>
  "handleLogin env signInWithOAuth c =
     login_with
       \<lparr>provider = ''google'',
        redirectTo = location_origin env @ ''/auth/callback'',
        scopes = Some login_scopes,
        queryParams = [(''access_type'', ''offline''), (''prompt'', ''consent'')]\<rparr>
       signInWithOAuth c"

definition handleLogin_Oauth_tsx ::
  "ClientEnv \<Rightarrow> (signIn_request \<Rightarrow> signIn_result) \<Rightarrow> component \<Rightarrow> component" where
  \<comment> \<open>\<^verbatim>\<open>handleLogin\<close> of \<^verbatim>\<open>src/src/components/Oauth.tsx\<close>: the sign-in options hold
      \<^verbatim>\<open>redirectTo\<close> only.\<close>
  "handleLogin_Oauth_tsx env signInWithOAuth c =
     login_with
       \<lparr>provider = ''google'',
        redirectTo = location_origin env @ ''/auth/callback'',
        scopes = None,
        queryParams = []\<rparr>
       signInWithOAuth c"

section \<open>The callback\<close>

definition enhancedSessionData :: "ClientEnv \<Rightarrow> Session \<Rightarrow> EnhancedSessionData" where
  "enhancedSessionData env s =
     (let m = user_metadata (user s)
      in \<lparr>session = s,
          google_credentials =
            \<lparr>access_token = or_else (provider_token s) [],
             refresh_token = or_null (provider_refresh_token s),
             expires_in = (if session_expires_in s = 0 then 3600 else session_expires_in s),
             token_type = (if session_token_type s = [] then ''Bearer'' else session_token_type s),
             cred_scope = ''https://www.googleapis.com/auth/analytics.readonly''\<rparr>,
          google_profile =
            \<lparr>profile_id = or_else (meta_provider_id m) (u_id (user s)),
             email = or_else (u_email (user s)) [],
             name = or_else (or_opt (meta_full_name m) (meta_name m)) [],
             picture = or_else (or_opt (meta_avatar_url m) (meta_picture m)) [],
             email_verified = (case meta_email_verified m of None \<Rightarrow> False | Some b \<Rightarrow> b),
             profile_locale = meta_locale m,
             profile_hd = (case meta_custom_claims m of None \<Rightarrow> None | Some h \<Rightarrow> h)\<rparr>,
          client_metadata =
            \<lparr>timestamp = now_iso env,
             user_agent = navigator_userAgent env,
             screen_resolution = decimal (screen_width env) @ ''x'' @ decimal (screen_height env),
             timezone = resolved_timeZone env,
             language = navigator_language env,
             referrer = (if document_referrer env = [] then ''direct'' else document_referrer env)\<rparr>\<rparr>)"

definition add_param :: "string \<times> string option \<Rightarrow> URL \<Rightarrow> URL" where
  \<comment> \<open>The body of the \<^verbatim>\<open>forEach\<close> over \<^verbatim>\<open>Object.entries(oauthParams)\<close>.\<close>
  "add_param kv u =
     (case snd kv of
        None \<Rightarrow> u
      | Some v \<Rightarrow> if v = [] then u
                  else u\<lparr>searchParams := searchParams_set (fst kv) v (searchParams u)\<rparr>)"

definition callbackUrl :: "string \<Rightarrow> js_object \<Rightarrow> URL" where
  \<comment> \<open>\<^verbatim>\<open>new URL('/callback', backendUrl)\<close> for a \<^verbatim>\<open>backendUrl\<close> that is an origin without a
      trailing slash, as the literal of \<^verbatim>\<open>src/unnamed/part_001\<close> is, with the stored
      parameters added.\<close>
  "callbackUrl backend params =
     fold add_param params \<lparr>base = backend, pathname = ''/callback'', searchParams = []\<rparr>"

definition backendUrl :: string where
  "backendUrl = ''https://remote-ga4-mcp-229250458092.us-central1.run.app''"

definition status_text :: "axios_response option \<Rightarrow> string" where
  \<comment> \<open>\<^verbatim>\<open>err.response?.status\<close> inside the template literal.\<close>
  "status_text r = (case r of None \<Rightarrow> ''undefined'' | Some resp \<Rightarrow> decimal (status resp))"

definition error_message :: "axios_response option \<Rightarrow> string \<Rightarrow> string" where
  \<comment> \<open>\<^verbatim>\<open>err.response?.data?.message || err.message\<close>.\<close>
  "error_message r msg = or_else (case r of None \<Rightarrow> None | Some resp \<Rightarrow> data_message resp) msg"

definition callback_request :: "ClientEnv \<Rightarrow> Session \<Rightarrow> js_object \<Rightarrow> post_request" where
  \<comment> \<open>The arguments of \<^verbatim>\<open>axios.post\<close> in \<^verbatim>\<open>src/unnamed/part_001\<close>.\<close>
  "callback_request env s params =
     \<lparr>post_url = URL_toString (callbackUrl backendUrl params),
      post_body = EnhancedBody (enhancedSessionData env s),
      content_type = ''application/json'',
      timeout = 15000\<rparr>"

text \<open>
  In \<^verbatim>\<open>src/src/components/Oauth.tsx\<close> the backend address is configured: it is
  \<^verbatim>\<open>import.meta.env.VITE_BACKEND_URL\<close>, or \<^verbatim>\<open>http://localhost:3000\<close> without it, and the
  platform resolves \<^verbatim>\<open>/callback\<close> against it. The resolution is taken as given:
  \<open>new_URL path base\<close> is \<open>None\<close> when \<^verbatim>\<open>new URL(path, base)\<close> throws, and otherwise what
  precedes the path of the resulting URL together with that path (resolving
  \<^verbatim>\<open>/callback\<close> against \<^verbatim>\<open>https://api.test/\<close> gives \<^verbatim>\<open>https://api.test\<close> and \<^verbatim>\<open>/callback\<close>).
\<close>

record Oauth_tsx_env =
  VITE_BACKEND_URL :: "string option"
  new_URL :: "string \<Rightarrow> string \<Rightarrow> (string \<times> string) option"

definition callback_request_Oauth_tsx :: "string \<times> string \<Rightarrow> Session \<Rightarrow> js_object \<Rightarrow> post_request"
  where
  \<comment> \<open>The arguments of \<^verbatim>\<open>axios.post\<close> in \<^verbatim>\<open>src/src/components/Oauth.tsx\<close>, for the URL that
      the constructor gave.\<close>
  "callback_request_Oauth_tsx url s params =
     \<lparr>post_url = URL_toString
                   (fold add_param params
                      \<lparr>base = fst url, pathname = snd url, searchParams = []\<rparr>),
      post_body = SessionBody s,
      content_type = ''application/json'',
      timeout = 10000\<rparr>"

definition unexpected :: "component \<Rightarrow> component" where
  \<comment> \<open>The \<^verbatim>\<open>catch\<close> branch for an error that is not an axios error.\<close>
  "unexpected c =
     c\<lparr>error := Some ''An unexpected error occurred during authentication'', isLoading := False\<rparr>"

definition handleSupabaseCallback ::
  "ClientEnv \<Rightarrow> getSession_result \<Rightarrow> (post_request \<Rightarrow> post_result) \<Rightarrow> component \<Rightarrow> component"
  where
  \<comment> \<open>\<^verbatim>\<open>handleSupabaseCallback\<close> of \<^verbatim>\<open>src/unnamed/part_001\<close>.\<close>
  "handleSupabaseCallback env getSession axios_post c0 =
     (let c = c0\<lparr>isLoading := True, error := None\<rparr>
      in case getSession of
           GetSessionThrows \<Rightarrow> unexpected c
         | GetSession data_session sessionError \<Rightarrow>
             (case (sessionError, data_session) of
                (Some _, _) \<Rightarrow>
                  c\<lparr>error := Some ''Failed to authenticate with Google'', isLoading := False\<rparr>
              | (None, None) \<Rightarrow>
                  c\<lparr>error := Some ''Failed to authenticate with Google'', isLoading := False\<rparr>
              | (None, Some s) \<Rightarrow>
                  (case getItem c ''oauth_params'' of
                     None \<Rightarrow>
                       c\<lparr>error := Some ''OAuth session expired. Please try again.'',
                          isLoading := False\<rparr>
                   | Some storedParams \<Rightarrow>
                       if storedParams = [] then
                         c\<lparr>error := Some ''OAuth session expired. Please try again.'',
                            isLoading := False\<rparr>
                       else
                         (case JSON_parse storedParams of
                            None \<Rightarrow> unexpected c
                          | Some params \<Rightarrow>
                              (let req = callback_request env s params;
                                   c1 = emit (AxiosPost req) c
                               in case axios_post req of
                                    PostFulfilled response \<Rightarrow>
                                      (let c2 = removeItem ''oauth_params'' c1;
                                           redirectUri = obj_get params ''redirect_uri''
                                       in emit (Navigate (''/payment?redirect_uri='' @
                                                  encodeURIComponent (or_else redirectUri []))) c2)
                                  | PostAxiosError resp msg \<Rightarrow>
                                      c1\<lparr>error := Some (''Authentication failed ('' @ status_text resp @
                                                         ''): '' @ error_message resp msg),
                                         isLoading := False\<rparr>
                                  | PostOtherError \<Rightarrow> unexpected c1)))))"

definition handleSupabaseCallback_Oauth_tsx ::
  "Oauth_tsx_env \<Rightarrow> getSession_result \<Rightarrow> (post_request \<Rightarrow> post_result) \<Rightarrow> component \<Rightarrow> component"
  where
  \<comment> \<open>\<^verbatim>\<open>handleSupabaseCallback\<close> of \<^verbatim>\<open>src/src/components/Oauth.tsx\<close>. A constructor that
      throws, and a \<^verbatim>\<open>null\<close> body read for its \<^verbatim>\<open>redirectUrl\<close>, land in the \<^verbatim>\<open>catch\<close>
      branch.\<close>
  "handleSupabaseCallback_Oauth_tsx b getSession axios_post c0 =
     (let c = c0\<lparr>isLoading := True, error := None\<rparr>
      in case getSession of
           GetSessionThrows \<Rightarrow> unexpected c
         | GetSession data_session sessionError \<Rightarrow>
             (case (sessionError, data_session) of
                (Some _, _) \<Rightarrow>
                  c\<lparr>error := Some ''Failed to authenticate with Google'', isLoading := False\<rparr>
              | (None, None) \<Rightarrow>
                  c\<lparr>error := Some ''Failed to authenticate with Google'', isLoading := False\<rparr>
              | (None, Some s) \<Rightarrow>
                  (case getItem c ''oauth_params'' of
                     None \<Rightarrow>
                       c\<lparr>error := Some ''OAuth session expired. Please try again.'',
                          isLoading := False\<rparr>
                   | Some storedParams \<Rightarrow>
                       if storedParams = [] then
                         c\<lparr>error := Some ''OAuth session expired. Please try again.'',
                            isLoading := False\<rparr>
                       else
                         (case JSON_parse storedParams of
                            None \<Rightarrow> unexpected c
                          | Some params \<Rightarrow>
                              (case new_URL b ''/callback''
                                      (or_else (VITE_BACKEND_URL b) ''http://localhost:3000'') of
                                 None \<Rightarrow> unexpected c
                               | Some url \<Rightarrow>
                                   (let req = callback_request_Oauth_tsx url s params;
                                        c1 = emit (AxiosPost req) c
                                    in case axios_post req of
                                         PostFulfilled data \<Rightarrow>
                                           (let c2 = removeItem ''oauth_params'' c1
                                            in case data of
                                                 None \<Rightarrow> unexpected c2
                                               | Some response \<Rightarrow>
                                                   if truthy (redirectUrl response)
                                                   then emit (LocationHref
                                                          (or_else (redirectUrl response) [])) c2
                                                   else c2)
                                       | PostAxiosError resp msg \<Rightarrow>
                                           c1\<lparr>error := Some (''Authentication failed: '' @
                                                              error_message resp msg),
                                              isLoading := False\<rparr>
                                       | PostOtherError \<Rightarrow> unexpected c1))))))"

section \<open>What is shown, and the way out of the error view\<close>

datatype view =
    ErrorView string
  | CallbackView
  | AuthorizeView "OAuthParams option" bool
  | DefaultView string

definition render :: "string \<Rightarrow> component \<Rightarrow> view" where
  \<comment> \<open>Which of the four returns of the component is taken; the authorize view carries
      the request it displays and whether its button is disabled.\<close>
  "render currentPath c =
     (if truthy (error c) then ErrorView (or_else (error c) [])
      else if currentPath = ''/auth/callback'' then CallbackView
      else if currentPath = ''/authorize''
        then AuthorizeView (oauthParams c) (isLoading c \<or> oauthParams c = None)
      else DefaultView currentPath)"

definition goBack :: "component \<Rightarrow> component" where
  \<comment> \<open>The \<^verbatim>\<open>onClick\<close> of the error view's only button in \<^verbatim>\<open>src/unnamed/part_001\<close>.\<close>
  "goBack c = emit (LocationHref ''/'') (removeItem ''oauth_params'' (c\<lparr>error := None\<rparr>))"

definition goBack_Oauth_tsx :: "component \<Rightarrow> component" where
  \<comment> \<open>The same button in \<^verbatim>\<open>src/src/components/Oauth.tsx\<close>.\<close>
  "goBack_Oauth_tsx c = emit (LocationHref ''/'') (c\<lparr>error := None\<rparr>)"

section \<open>The payment page\<close>

record PaymentProps =
  amount :: nat
  currency :: string
  user_email :: string

record PaymentEnv =
  razorpay_key_id :: string
  null_status_error :: string

datatype json =
    JNull
  | JBool bool
  | JNumber string
  | JString string
  | JArray "json list"
  | JObject "(string \<times> json) list"

datatype fetch_result = FetchRejects string | JsonRejects string | JsonData json

record razorpay_response =
  response_payment_id :: "string option"
  response_signature :: "string option"

definition Payment_redirectUri :: "URLSearchParams \<Rightarrow> string" where
  \<comment> \<open>\<^verbatim>\<open>searchParams.get('redirect_uri') || ""\<close>.\<close>
  "Payment_redirectUri searchParams' = or_else (searchParams_get searchParams' ''redirect_uri'') []"

definition status_of :: "json \<Rightarrow> json option" where
  \<comment> \<open>\<^verbatim>\<open>data.status\<close> for a \<^verbatim>\<open>data\<close> that is not \<^verbatim>\<open>null\<close>: the member of an object (the last
      one of that name in the text), \<^verbatim>\<open>undefined\<close> on anything else.\<close>
  "status_of d = (case d of JObject ms \<Rightarrow> map_of (rev ms) ''status'' | _ \<Rightarrow> None)"

definition verification_request :: "razorpay_response \<Rightarrow> verify_request" where
  \<comment> \<open>The arguments of \<^verbatim>\<open>fetch\<close> in the handler.\<close>
  "verification_request response =
     \<lparr>verify_url = ''/payment/verify'',
      verify_content_type = ''application/json'',
      razorpay_payment_id = response_payment_id response,
      razorpay_signature = or_else (response_signature response) ''no-signature''\<rparr>"

definition handler ::
  "PaymentEnv \<Rightarrow> string \<Rightarrow> (verify_request \<Rightarrow> fetch_result) \<Rightarrow> razorpay_response \<Rightarrow> effect list"
  where
  \<comment> \<open>The \<^verbatim>\<open>handler\<close> of the checkout options in \<^verbatim>\<open>Payment.tsx\<close>: what it does, in order.
      Reading \<^verbatim>\<open>status\<close> of \<^verbatim>\<open>null\<close> throws inside \<^verbatim>\<open>then\<close> and lands in \<^verbatim>\<open>catch\<close>.\<close>
  "handler env redirectUri fetch response =
     (let req = verification_request response
      in Fetch req #
         (case fetch req of
            FetchRejects err \<Rightarrow> [Alert (''Payment verification failed: '' @ err)]
          | JsonRejects err \<Rightarrow> [Alert (''Payment verification failed: '' @ err)]
          | JsonData data \<Rightarrow>
              if data = JNull then [Alert (''Payment verification failed: '' @ null_status_error env)]
              else if status_of data = Some (JString ''success'') then [LocationHref redirectUri]
              else [Alert ''Payment verification failed'']))"

definition handleBackToHome :: "effect list" where
  \<comment> \<open>The other button of the page.\<close>
  "handleBackToHome = [LocationHref ''/'']"

definition handlePayment :: "PaymentEnv \<Rightarrow> PaymentProps \<Rightarrow> effect list" where
  \<comment> \<open>\<^verbatim>\<open>handlePayment\<close>: the checkout is opened with these options (and the handler above).\<close>
  "handlePayment env props =
     [RazorpayOpen
        \<lparr>opt_key = razorpay_key_id env,
         opt_amount = amount props,
         opt_currency = currency props,
         opt_name = ''GA4 Claude Extension'',
         opt_description = ''Access Google Analytics 4 in Claude'',
         prefill_email = user_email props,
         theme_color = ''#0045a0'',
         retry_enabled = True,
         retry_max_count = 3\<rparr>]"

section \<open>Reading the calls made\<close>

fun posts :: "effect list \<Rightarrow> post_request list" where
  "posts [] = []"
| "posts (AxiosPost req # es) = req # posts es"
| "posts (e # es) = posts es"

fun navigations :: "effect list \<Rightarrow> string list" where
  \<comment> \<open>Where the browser was sent, by the router or by assignment to the location.\<close>
  "navigations [] = []"
| "navigations (Navigate u # es) = u # navigations es"
| "navigations (LocationHref u # es) = u # navigations es"
| "navigations (e # es) = navigations es"

fun alerts :: "effect list \<Rightarrow> string list" where
  "alerts [] = []"
| "alerts (Alert m # es) = m # alerts es"
| "alerts (e # es) = alerts es"

section \<open>Sample inputs\<close>

definition fresh :: component where
  \<comment> \<open>The component as it is mounted in a tab with an empty session storage.\<close>
  "fresh = \<lparr>isLoading = False, oauthParams = None, error = None,
             sessionStorage = Map.empty, trace = []\<rparr>"

definition sample_env :: ClientEnv where
  "sample_env =
     \<lparr>location_origin = ''https://app.test'', now_iso = ''2025-01-01T00:00:00.000Z'',
      navigator_userAgent = ''UA'', screen_width = 1920, screen_height = 1080,
      resolved_timeZone = ''UTC'', navigator_language = ''en'', document_referrer = []\<rparr>"

definition sample_query :: URLSearchParams where
  "sample_query =
     [(''client_id'', ''abc''), (''redirect_uri'', ''https://x.test/done''),
      (''response_type'', ''code'')]"

definition query_without_redirect :: URLSearchParams where
  "query_without_redirect = [(''client_id'', ''abc''), (''response_type'', ''code'')]"

definition sample_session :: Session where
  "sample_session =
     \<lparr>provider_token = Some ''ya29.token'', provider_refresh_token = None,
      session_expires_in = 0, session_token_type = ''bearer'',
      user = \<lparr>u_id = ''u1'', u_email = Some ''a@b.c'',
               user_metadata =
                 \<lparr>meta_provider_id = None, meta_full_name = None, meta_name = Some ''N'',
                  meta_avatar_url = None, meta_picture = None,
                  meta_email_verified = Some True, meta_locale = None,
                  meta_custom_claims = None\<rparr>\<rparr>,
      granted_scope = login_scopes\<rparr>"

definition sign_in_ok :: "signIn_request \<Rightarrow> signIn_result" where
  "sign_in_ok req = SignInOk"

definition backend_accepts :: "post_request \<Rightarrow> post_result" where
  \<comment> \<open>A backend that answers 200 with \<^verbatim>\<open>{success: false}\<close>.\<close>
  "backend_accepts req =
     PostFulfilled (Some \<lparr>success = False, message = None, redirectUrl = None\<rparr>)"

definition backend_redirects :: "post_request \<Rightarrow> post_result" where
  \<comment> \<open>A backend that answers 200 with a \<^verbatim>\<open>redirectUrl\<close>.\<close>
  "backend_redirects req =
     PostFulfilled (Some \<lparr>success = True, message = None,
                           redirectUrl = Some ''https://x.test/done?code=c1''\<rparr>)"

definition sample_new_URL :: "string \<Rightarrow> string \<Rightarrow> (string \<times> string) option" where
  \<comment> \<open>The constructor on the two bases of the samples; any other base stands for one that
      does not parse.\<close>
  "sample_new_URL path b =
     (if path = ''/callback'' \<and> b = ''https://api.test/'' then Some (''https://api.test'', ''/callback'')
      else if path = ''/callback'' \<and> b = ''http://localhost:3000''
        then Some (''http://localhost:3000'', ''/callback'')
      else None)"

definition sample_Oauth_tsx_env :: Oauth_tsx_env where
  "sample_Oauth_tsx_env =
     \<lparr>VITE_BACKEND_URL = Some ''https://api.test/'', new_URL = sample_new_URL\<rparr>"

definition backend_refuses :: "post_request \<Rightarrow> post_result" where
  \<comment> \<open>A backend that answers 500 with \<^verbatim>\<open>{message: 'boom'}\<close>: axios rejects with an error
      that carries the response.\<close>
  "backend_refuses req =
     PostAxiosError (Some \<lparr>status = 500, data_message = Some ''boom''\<rparr>)
       ''Request failed with status code 500''"

definition sample_payment_env :: PaymentEnv where
  "sample_payment_env =
     \<lparr>razorpay_key_id = ''rzp_test_key'',
      null_status_error = ''TypeError: Cannot read properties of null''\<rparr>"

definition sample_payment :: razorpay_response where
  "sample_payment = \<lparr>response_payment_id = Some ''pay_1'', response_signature = None\<rparr>"

definition verifier_says_success :: "verify_request \<Rightarrow> fetch_result" where
  "verifier_says_success req = JsonData (JObject [(''status'', JString ''success'')])"

definition verifier_says_failed :: "verify_request \<Rightarrow> fetch_result" where
  "verifier_says_failed req = JsonData (JObject [(''status'', JString ''failed'')])"

definition verifier_without_status :: "verify_request \<Rightarrow> fetch_result" where
  "verifier_without_status req = JsonData (JObject [(''ok'', JBool True)])"

definition verifier_unreachable :: "verify_request \<Rightarrow> fetch_result" where
  "verifier_unreachable req = FetchRejects ''TypeError: Failed to fetch''"

definition after_login :: component where
  \<comment> \<open>The sample request captured and the login button pressed.\<close>
  "after_login = handleLogin sample_env sign_in_ok (useEffect ''/authorize'' sample_query id fresh)"

definition after_login_Oauth_tsx :: component where
  \<comment> \<open>The same with the login of \<^verbatim>\<open>src/src/components/Oauth.tsx\<close>.\<close>
  "after_login_Oauth_tsx =
     handleLogin_Oauth_tsx sample_env sign_in_ok (useEffect ''/authorize'' sample_query id fresh)"

definition returned :: component where
  \<comment> \<open>The component mounted again on the way back from the provider: new cells, the
      storage as the login left it.\<close>
  "returned = fresh\<lparr>sessionStorage := sessionStorage after_login\<rparr>"

definition returned_Oauth_tsx :: component where
  "returned_Oauth_tsx = fresh\<lparr>sessionStorage := sessionStorage after_login_Oauth_tsx\<rparr>"

definition refused_Oauth_tsx :: component where
  \<comment> \<open>The callback of \<^verbatim>\<open>src/src/components/Oauth.tsx\<close> run on the way back, the backend
      answering 500: the error view is shown.\<close>
  "refused_Oauth_tsx =
     handleSupabaseCallback_Oauth_tsx sample_Oauth_tsx_env (GetSession (Some sample_session) None)
       backend_refuses returned_Oauth_tsx"

section \<open>The JSON text read back\<close>

lemma hex_value_lower: "d < 16 \<Longrightarrow> hex_value (hex_lower d) = Some d"
proof -
  have "\<forall>d \<in> {0..<16}. hex_value (hex_lower d) = Some d"
    by code_simp
  then show "d < 16 \<Longrightarrow> hex_value (hex_lower d) = Some d"
    by simp
qed

lemma hex_value_zero: "hex_value CHR ''0'' = Some 0"
  by code_simp

lemma hex4_lower: "n < 256 \<Longrightarrow> hex4 CHR ''0'' CHR ''0'' (hex_lower (n div 16)) (hex_lower (n mod 16)) = Some n"
  by (simp add: hex4_def hex_value_zero hex_value_lower)

lemma parse_chars_unicode_escape:
  assumes "n < 256"
  shows "parse_chars ([CHR 0x5C, CHR ''u'', CHR ''0'', CHR ''0'', hex_lower (n div 16),
            hex_lower (n mod 16)] @ t) = consed (char_of n) (parse_chars t)"
  using assms by (simp add: hex4_lower)

lemma parse_chars_json_escape: "parse_chars (json_escape c @ t) = consed c (parse_chars t)"
proof -
  let ?n = "of_char c :: nat"
  have c: "c = char_of ?n" by simp
  consider (quote) "c = CHR ''\"''" | (backslash) "c = CHR 0x5C"
    | (short) "c \<noteq> CHR ''\"''" "c \<noteq> CHR 0x5C" "?n \<in> {8, 9, 10, 12, 13}"
    | (control) "c \<noteq> CHR ''\"''" "c \<noteq> CHR 0x5C" "?n \<notin> {8, 9, 10, 12, 13}" "?n < 32"
    | (plain) "c \<noteq> CHR ''\"''" "c \<noteq> CHR 0x5C" "?n \<notin> {8, 9, 10, 12, 13}" "\<not> ?n < 32"
    by blast
  then show ?thesis
  proof cases
    case quote
    then show ?thesis by (simp add: json_escape_def json_unescape_def)
  next
    case backslash
    then show ?thesis by (simp add: json_escape_def json_unescape_def)
  next
    case short
    have chars: "char_of (8::nat) = CHR 0x08" "char_of (9::nat) = CHR 0x09"
      "char_of (10::nat) = CHR 0x0A" "char_of (12::nat) = CHR 0x0C" "char_of (13::nat) = CHR 0x0D"
      by code_simp+
    from short(3) c chars
    have "c = CHR 0x08 \<or> c = CHR 0x09 \<or> c = CHR 0x0A \<or> c = CHR 0x0C \<or> c = CHR 0x0D"
      by (metis insertE singletonD)
    then show ?thesis
      by (elim disjE) (simp_all add: json_escape_def json_unescape_def)
  next
    case control
    have "?n < 256" using control(4) by simp
    from parse_chars_unicode_escape [OF this, of t] control show ?thesis
      by (simp add: json_escape_def Let_def)
  next
    case plain
    then show ?thesis by (simp add: json_escape_def Let_def)
  qed
qed

lemma parse_chars_escaped:
  "parse_chars (concat (map json_escape s) @ CHR ''\"'' # rest) = Some (s, rest)"
proof (induction s)
  case Nil
  show ?case by simp
next
  case (Cons c s)
  have "parse_chars (concat (map json_escape (c # s)) @ CHR ''\"'' # rest) =
        parse_chars (json_escape c @ (concat (map json_escape s) @ CHR ''\"'' # rest))"
    by simp
  also have "\<dots> = consed c (parse_chars (concat (map json_escape s) @ CHR ''\"'' # rest))"
    by (rule parse_chars_json_escape)
  also have "\<dots> = Some (c # s, rest)"
    by (simp add: Cons.IH consed_def)
  finally show ?case .
qed

lemma skip_ws_token: "\<not> is_ws c \<Longrightarrow> skip_ws (c # s) = c # s"
  by (simp add: skip_ws_def)

lemma skip_ws_quote: "skip_ws (JSON_quote s @ rest) = JSON_quote s @ rest"
  by (simp add: JSON_quote_def skip_ws_def is_ws_def)

lemma parse_value_text:
  "parse_value ((case v of None \<Rightarrow> ''null'' | Some s \<Rightarrow> JSON_quote s) @ rest) = Some (v, rest)"
proof (cases v)
  case None
  then show ?thesis by (simp add: parse_value_def)
next
  case (Some s)
  have "JSON_quote s @ rest = CHR ''\"'' # (concat (map json_escape s) @ CHR ''\"'' # rest)"
    by (simp add: JSON_quote_def)
  then show ?thesis
    using Some by (simp add: parse_value_def parse_chars_escaped)
qed

lemma skip_ws_value:
  "skip_ws ((case v of None \<Rightarrow> ''null'' | Some s \<Rightarrow> JSON_quote s) @ rest) =
     (case v of None \<Rightarrow> ''null'' | Some s \<Rightarrow> JSON_quote s) @ rest"
  by (cases v) (simp_all add: skip_ws_quote, simp add: skip_ws_def is_ws_def)

lemma parse_member_text:
  assumes "\<not> is_ws c"
  shows "parse_member (JSON_member m @ c # rest) = Some (m, c # rest)"
proof -
  obtain k v where m: "m = (k, v)" by (cases m)
  let ?val = "(case v of None \<Rightarrow> ''null'' | Some s \<Rightarrow> JSON_quote s)"
  let ?after_key = "CHR '':'' # (?val @ c # rest)"
  have shape: "JSON_member m @ c # rest =
      CHR ''\"'' # (concat (map json_escape k) @ CHR ''\"'' # ?after_key)"
    by (simp add: JSON_member_def JSON_quote_def m)
  have key: "parse_chars (concat (map json_escape k) @ CHR ''\"'' # ?after_key) = Some (k, ?after_key)"
    by (rule parse_chars_escaped)
  have colon: "skip_ws ?after_key = ?after_key"
    by (simp add: skip_ws_def is_ws_def)
  have val: "parse_value (skip_ws (?val @ c # rest)) = Some (v, c # rest)"
    by (simp only: skip_ws_value parse_value_text)
  have first: "skip_ws (JSON_member m @ c # rest) =
      CHR ''\"'' # (concat (map json_escape k) @ CHR ''\"'' # ?after_key)"
    unfolding shape by (simp add: skip_ws_def is_ws_def)
  show ?thesis
    unfolding parse_member_def first
    by (simp add: key colon val skip_ws_token [OF assms] m del: append.simps)
qed

lemma parse_members_text:
  "ms \<noteq> [] \<Longrightarrow> parse_members (intercalate '','' (map JSON_member ms) @ ''}'') = Some ms"
proof (induction ms rule: list_nonempty_induct)
  case (single m)
  have "parse_member (JSON_member m @ CHR ''}'' # []) = Some (m, CHR ''}'' # [])"
    by (rule parse_member_text) (simp add: is_ws_def)
  then show ?case
    by (subst parse_members.simps) (simp add: skip_ws_def)
next
  case (cons m ms)
  then obtain m' ms' where ms: "ms = m' # ms'" by (cases ms) auto
  let ?rest = "intercalate '','' (map JSON_member ms) @ ''}''"
  have shape: "intercalate '','' (map JSON_member (m # ms)) @ ''}'' = JSON_member m @ CHR '','' # ?rest"
    by (simp add: ms)
  have "parse_member (JSON_member m @ CHR '','' # ?rest) = Some (m, CHR '','' # ?rest)"
    by (rule parse_member_text) (simp add: is_ws_def)
  then show ?case
    unfolding shape by (subst parse_members.simps) (simp add: cons.IH)
qed

lemma obj_set_new:
  "k \<notin> fst ` set obj \<Longrightarrow> \<not> is_array_index k \<Longrightarrow> obj_set k v obj = obj @ [(k, v)]"
  by (simp add: obj_set_def)

lemma fold_obj_set_new:
  "distinct (map fst obj @ map fst ms) \<Longrightarrow> \<forall>k \<in> fst ` set ms. \<not> is_array_index k \<Longrightarrow>
   fold (\<lambda>(k, v). obj_set k v) ms obj = obj @ ms"
proof (induction ms arbitrary: obj)
  case Nil
  show ?case by simp
next
  case (Cons m ms)
  obtain k v where m: "m = (k, v)" by (cases m)
  have new: "obj_set k v obj = obj @ [(k, v)]"
    using Cons.prems by (intro obj_set_new) (auto simp: m)
  have "distinct (map fst (obj @ [(k, v)]) @ map fst ms)"
    using Cons.prems(1) by (simp add: m)
  moreover have "\<forall>k \<in> fst ` set ms. \<not> is_array_index k"
    using Cons.prems(2) by simp
  ultimately have "fold (\<lambda>(k, v). obj_set k v) ms (obj @ [(k, v)]) = (obj @ [(k, v)]) @ ms"
    by (rule Cons.IH)
  then show ?case by (simp add: m new)
qed

lemma JSON_parse_stringify:
  assumes "distinct (map fst obj)" "\<forall>k \<in> fst ` set obj. \<not> is_array_index k"
  shows "JSON_parse (JSON_stringify obj) = Some obj"
proof (cases "obj = []")
  case True
  then show ?thesis
    by (simp add: JSON_parse_def JSON_stringify_def skip_ws_def is_ws_def)
next
  case False
  then obtain m ms where obj: "obj = m # ms" by (cases obj) auto
  let ?body = "intercalate '','' (map JSON_member obj) @ ''}''"
  have body: "parse_members ?body = Some obj"
    using False by (rule parse_members_text)
  have "?body = JSON_member m @ (if ms = [] then ''}'' else '','' @ intercalate '','' (map JSON_member ms) @ ''}'')"
    by (cases ms) (simp_all add: obj)
  then obtain t where start: "?body = CHR ''\"'' # t"
    by (cases m) (simp add: JSON_member_def JSON_quote_def)
  have built: "fold (\<lambda>(k, v). obj_set k v) obj [] = obj"
    using fold_obj_set_new [of "[]" obj] assms by simp
  have outer: "skip_ws (JSON_stringify obj) = CHR ''{'' # ?body"
    by (simp add: JSON_stringify_def skip_ws_def is_ws_def)
  have inner: "skip_ws ?body = CHR ''\"'' # t"
    unfolding start by (simp add: skip_ws_def is_ws_def)
  show ?thesis
    unfolding JSON_parse_def outer by (simp add: inner body built)
qed

lemma OAuthParams_keys:
  "distinct (map fst (OAuthParams_entries p))"
  "\<forall>k \<in> fst ` set (OAuthParams_entries p). \<not> is_array_index k"
  by (simp_all add: OAuthParams_entries_def is_array_index_def is_digit_def)

lemma OAuthParams_roundtrip:
  "JSON_parse (JSON_stringify (OAuthParams_entries p)) = Some (OAuthParams_entries p)"
  by (rule JSON_parse_stringify) (rule OAuthParams_keys)+

lemma as_OAuthParams_entries: "as_OAuthParams (OAuthParams_entries p) = p"
  by (simp add: as_OAuthParams_def OAuthParams_entries_def obj_get_def)

lemma JSON_stringify_nonempty: "JSON_stringify obj \<noteq> []"
  by (simp add: JSON_stringify_def)

section \<open>Request capture\<close>

text \<open>
  C3. On the authorize path, a query whose \<^verbatim>\<open>client_id\<close> is missing or empty, whose
  \<^verbatim>\<open>redirect_uri\<close> is missing or empty, or whose \<^verbatim>\<open>response_type\<close> is not \<^verbatim>\<open>code\<close> puts the
  component into the error view with exactly the message
  \<^verbatim>\<open>Invalid OAuth request: Missing required parameters\<close>; no request is kept, the session
  storage is not touched and nothing is called. A login attempted from that state (in
  either file) stores nothing either.
\<close>

theorem invalid_request_rejected:
  assumes "searchParams_get urlParams ''client_id'' = None \<or>
           searchParams_get urlParams ''client_id'' = Some [] \<or>
           searchParams_get urlParams ''redirect_uri'' = None \<or>
           searchParams_get urlParams ''redirect_uri'' = Some [] \<or>
           searchParams_get urlParams ''response_type'' \<noteq> Some ''code''"
  shows "error (useEffect ''/authorize'' urlParams callback c) =
           Some ''Invalid OAuth request: Missing required parameters'' \<and>
         render ''/authorize'' (useEffect ''/authorize'' urlParams callback c) =
           ErrorView ''Invalid OAuth request: Missing required parameters'' \<and>
         oauthParams (useEffect ''/authorize'' urlParams callback c) = oauthParams c \<and>
         sessionStorage (useEffect ''/authorize'' urlParams callback c) = sessionStorage c \<and>
         trace (useEffect ''/authorize'' urlParams callback c) = trace c \<and>
         (oauthParams c = None \<longrightarrow>
            sessionStorage (handleLogin env signIn (useEffect ''/authorize'' urlParams callback c)) =
              sessionStorage c \<and>
            trace (handleLogin env signIn (useEffect ''/authorize'' urlParams callback c)) = trace c \<and>
            sessionStorage
              (handleLogin_Oauth_tsx env signIn (useEffect ''/authorize'' urlParams callback c)) =
              sessionStorage c \<and>
            trace (handleLogin_Oauth_tsx env signIn (useEffect ''/authorize'' urlParams callback c)) =
              trace c)"
proof -
  let ?msg = "''Invalid OAuth request: Missing required parameters''"
  from assms have bad:
    "\<not> truthy (client_id (capture urlParams)) \<or> \<not> truthy (redirect_uri (capture urlParams)) \<or>
     response_type (capture urlParams) \<noteq> Some ''code''"
    by (auto simp: capture_def truthy_def)
  then have eq: "useEffect ''/authorize'' urlParams callback c = c\<lparr>error := Some ?msg\<rparr>"
    by (simp add: useEffect_def Let_def)
  have shown: "render ''/authorize'' (c\<lparr>error := Some ?msg\<rparr>) = ErrorView ?msg"
    by (simp add: render_def truthy_def or_else_def)
  have later: "oauthParams c = None \<Longrightarrow>
      login_with req signIn (c\<lparr>error := Some ?msg\<rparr>) = c\<lparr>error := Some ''No OAuth parameters found''\<rparr>"
    for req
    by (simp add: login_with_def)
  show ?thesis
    unfolding eq using shown later
    by (simp add: handleLogin_def handleLogin_Oauth_tsx_def)
qed

theorem invalid_request_rejected_witness:
  "error (useEffect ''/authorize'' query_without_redirect id fresh) =
     Some ''Invalid OAuth request: Missing required parameters'' \<and>
   sessionStorage (handleLogin sample_env sign_in_ok
      (useEffect ''/authorize'' query_without_redirect id fresh)) ''oauth_params'' = None \<and>
   trace (handleLogin sample_env sign_in_ok
      (useEffect ''/authorize'' query_without_redirect id fresh)) = []"
proof -
  have bad: "searchParams_get query_without_redirect ''client_id'' = None \<or>
           searchParams_get query_without_redirect ''client_id'' = Some [] \<or>
           searchParams_get query_without_redirect ''redirect_uri'' = None \<or>
           searchParams_get query_without_redirect ''redirect_uri'' = Some [] \<or>
           searchParams_get query_without_redirect ''response_type'' \<noteq> Some ''code''"
    by (simp add: query_without_redirect_def searchParams_get_def)
  have "oauthParams fresh = None" "sessionStorage fresh = Map.empty" "trace fresh = []"
    by (simp_all add: fresh_def)
  with invalid_request_rejected [OF bad, of id fresh sample_env sign_in_ok]
  show ?thesis by simp
qed

section \<open>Login\<close>

lemma login_with_request:
  assumes "oauthParams c = Some p"
  shows "trace (login_with req signIn c) =
           trace c @ [SetItem ''oauth_params'' (JSON_stringify (OAuthParams_entries p)),
                      SignInWithOAuth req] \<and>
         sessionStorage (login_with req signIn c) =
           (sessionStorage c)(''oauth_params'' \<mapsto> JSON_stringify (OAuthParams_entries p))"
  using assms
  by (cases "signIn req") (simp_all add: login_with_def Let_def setItem_def emit_def)

lemma handleLogin_Oauth_tsx_request:
  assumes "oauthParams c = Some p"
  shows "trace (handleLogin_Oauth_tsx env signIn c) =
           trace c @ [SetItem ''oauth_params'' (JSON_stringify (OAuthParams_entries p)),
                      SignInWithOAuth \<lparr>provider = ''google'',
                         redirectTo = location_origin env @ ''/auth/callback'',
                         scopes = None, queryParams = []\<rparr>]"
  unfolding handleLogin_Oauth_tsx_def using login_with_request [OF assms] by simp

lemma capture_sample: "oauthParams (useEffect ''/authorize'' sample_query id fresh) = Some (capture sample_query)"
  by (simp add: useEffect_def Let_def capture_def sample_query_def searchParams_get_def
      truthy_def fresh_def)

lemma capture_sample_trace: "trace (useEffect ''/authorize'' sample_query id fresh) = []"
  by (simp add: useEffect_def Let_def capture_def sample_query_def searchParams_get_def
      truthy_def fresh_def)

text \<open>
  C7, as the claim states it: the sign-in is called with the two analytics scopes,
  \<^verbatim>\<open>access_type=offline\<close> and \<^verbatim>\<open>prompt=consent\<close>. The login of
  \<^verbatim>\<open>src/src/components/Oauth.tsx\<close>, with the sample request captured, stores the request and
  calls the sign-in with \<^verbatim>\<open>redirectTo\<close> alone: no scopes, no query parameters.
\<close>

theorem login_Oauth_tsx_return_path_only_counterexample:
  "trace after_login_Oauth_tsx =
     [SetItem ''oauth_params'' (JSON_stringify (OAuthParams_entries (capture sample_query))),
      SignInWithOAuth
        \<lparr>provider = ''google'', redirectTo = ''https://app.test/auth/callback'',
         scopes = None, queryParams = []\<rparr>]"
  unfolding after_login_Oauth_tsx_def
  using handleLogin_Oauth_tsx_request [OF capture_sample, of sample_env sign_in_ok]
  by (simp add: capture_sample_trace sample_env_def)

text \<open>
  C7, amended. With a captured request in the component, the login handler of both files
  first stores the JSON text of the whole request under \<^verbatim>\<open>oauth_params\<close> (read back, the
  text gives all seven fields as they were), and then calls the sign-in with provider
  \<^verbatim>\<open>google\<close> and the return address \<^verbatim>\<open>origin/auth/callback\<close>. In \<^verbatim>\<open>src/unnamed/part_001\<close> the call
  also carries a scope list that holds \<^verbatim>\<open>analytics.readonly\<close> and
  \<^verbatim>\<open>analytics.manage.users.readonly\<close>, \<^verbatim>\<open>access_type=offline\<close> and \<^verbatim>\<open>prompt=consent\<close>; in
  \<^verbatim>\<open>src/src/components/Oauth.tsx\<close> it carries the return address only.
\<close>

theorem login_stores_then_delegates:
  assumes "oauthParams c = Some p"
  shows "trace (handleLogin env signIn c) =
           trace c @
           [SetItem ''oauth_params'' (JSON_stringify (OAuthParams_entries p)),
            SignInWithOAuth
              \<lparr>provider = ''google'',
               redirectTo = location_origin env @ ''/auth/callback'',
               scopes = Some (''openid email profile '' @
                              ''https://www.googleapis.com/auth/analytics.readonly'' @ '' '' @
                              ''https://www.googleapis.com/auth/analytics.manage.users.readonly''),
               queryParams = [(''access_type'', ''offline''), (''prompt'', ''consent'')]\<rparr>] \<and>
         getItem (handleLogin env signIn c) ''oauth_params'' =
           Some (JSON_stringify (OAuthParams_entries p)) \<and>
         map_option as_OAuthParams (JSON_parse (JSON_stringify (OAuthParams_entries p))) = Some p \<and>
         trace (handleLogin_Oauth_tsx env signIn c) =
           trace c @
           [SetItem ''oauth_params'' (JSON_stringify (OAuthParams_entries p)),
            SignInWithOAuth
              \<lparr>provider = ''google'',
               redirectTo = location_origin env @ ''/auth/callback'',
               scopes = None,
               queryParams = []\<rparr>] \<and>
         getItem (handleLogin_Oauth_tsx env signIn c) ''oauth_params'' =
           Some (JSON_stringify (OAuthParams_entries p))"
  unfolding handleLogin_def handleLogin_Oauth_tsx_def
  using login_with_request [OF assms]
  by (simp add: getItem_def OAuthParams_roundtrip as_OAuthParams_entries login_scopes_def)

theorem login_stores_then_delegates_witness:
  "oauthParams (useEffect ''/authorize'' sample_query id fresh) = Some (capture sample_query) \<and>
   trace after_login =
     [SetItem ''oauth_params'' (JSON_stringify (OAuthParams_entries (capture sample_query))),
      SignInWithOAuth
        \<lparr>provider = ''google'',
         redirectTo = ''https://app.test/auth/callback'',
         scopes = Some (''openid email profile '' @
                        ''https://www.googleapis.com/auth/analytics.readonly'' @ '' '' @
                        ''https://www.googleapis.com/auth/analytics.manage.users.readonly''),
         queryParams = [(''access_type'', ''offline''), (''prompt'', ''consent'')]\<rparr>] \<and>
   getItem after_login ''oauth_params'' =
     Some (JSON_stringify (OAuthParams_entries (capture sample_query))) \<and>
   getItem after_login_Oauth_tsx ''oauth_params'' =
     Some (JSON_stringify (OAuthParams_entries (capture sample_query)))"
  using login_stores_then_delegates [OF capture_sample, of sample_env sign_in_ok] capture_sample
  by (simp add: after_login_def after_login_Oauth_tsx_def sample_env_def capture_sample_trace)

section \<open>The gates of the callback\<close>

lemma callback_without_session:
  "handleSupabaseCallback env (GetSession None sessionError) axios_post c =
     c\<lparr>isLoading := False, error := Some ''Failed to authenticate with Google''\<rparr>"
  "handleSupabaseCallback_Oauth_tsx b (GetSession None sessionError) axios_post c =
     c\<lparr>isLoading := False, error := Some ''Failed to authenticate with Google''\<rparr>"
  by (cases sessionError; simp add: handleSupabaseCallback_def handleSupabaseCallback_Oauth_tsx_def)+

lemma callback_without_context:
  assumes "getItem c ''oauth_params'' = None"
  shows "handleSupabaseCallback env (GetSession (Some s) None) axios_post c =
           c\<lparr>isLoading := False, error := Some ''OAuth session expired. Please try again.''\<rparr>"
    and "handleSupabaseCallback_Oauth_tsx b (GetSession (Some s) None) axios_post c =
           c\<lparr>isLoading := False, error := Some ''OAuth session expired. Please try again.''\<rparr>"
  using assms
  by (simp_all add: handleSupabaseCallback_def handleSupabaseCallback_Oauth_tsx_def getItem_def)

text \<open>
  C4, as the claim states it: without a session the callback stops with the error
  \<^verbatim>\<open>Failed to authenticate with Google.\<close>, the full stop included. The message set has no
  full stop.
\<close>

theorem no_session_message_counterexample:
  "error (handleSupabaseCallback sample_env (GetSession None None) backend_accepts fresh) =
     Some ''Failed to authenticate with Google'' \<and>
   error (handleSupabaseCallback sample_env (GetSession None None) backend_accepts fresh) \<noteq>
     Some ''Failed to authenticate with Google.''"
  by (simp add: callback_without_session fresh_def)

text \<open>
  C4, amended. The callback checks its gates in order, in both files: with no session it
  stops with the error \<^verbatim>\<open>Failed to authenticate with Google\<close> whatever the storage holds;
  with a session and nothing stored under \<^verbatim>\<open>oauth_params\<close> it stops with the error
  \<^verbatim>\<open>OAuth session expired. Please try again.\<close>. In both cases nothing is added to the
  calls made (no POST) and the storage is left as it was.
\<close>

theorem callback_gates_in_order:
  "error (handleSupabaseCallback env (GetSession None sessionError) axios_post c) =
     Some ''Failed to authenticate with Google'' \<and>
   trace (handleSupabaseCallback env (GetSession None sessionError) axios_post c) = trace c \<and>
   sessionStorage (handleSupabaseCallback env (GetSession None sessionError) axios_post c) =
     sessionStorage c \<and>
   error (handleSupabaseCallback_Oauth_tsx b (GetSession None sessionError) axios_post c) =
     Some ''Failed to authenticate with Google'' \<and>
   trace (handleSupabaseCallback_Oauth_tsx b (GetSession None sessionError) axios_post c) = trace c \<and>
   sessionStorage (handleSupabaseCallback_Oauth_tsx b (GetSession None sessionError) axios_post c) =
     sessionStorage c \<and>
   (getItem c ''oauth_params'' = None \<longrightarrow>
      error (handleSupabaseCallback env (GetSession (Some s) None) axios_post c) =
        Some ''OAuth session expired. Please try again.'' \<and>
      trace (handleSupabaseCallback env (GetSession (Some s) None) axios_post c) = trace c \<and>
      sessionStorage (handleSupabaseCallback env (GetSession (Some s) None) axios_post c) =
        sessionStorage c \<and>
      error (handleSupabaseCallback_Oauth_tsx b (GetSession (Some s) None) axios_post c) =
        Some ''OAuth session expired. Please try again.'' \<and>
      trace (handleSupabaseCallback_Oauth_tsx b (GetSession (Some s) None) axios_post c) = trace c \<and>
      sessionStorage (handleSupabaseCallback_Oauth_tsx b (GetSession (Some s) None) axios_post c) =
        sessionStorage c)"
  by (simp add: callback_without_session callback_without_context)

theorem callback_gates_in_order_witness:
  "error (handleSupabaseCallback sample_env (GetSession None None) backend_accepts returned) =
     Some ''Failed to authenticate with Google'' \<and>
   trace (handleSupabaseCallback sample_env (GetSession None None) backend_accepts returned) = [] \<and>
   error (handleSupabaseCallback sample_env (GetSession (Some sample_session) None)
            backend_accepts fresh) = Some ''OAuth session expired. Please try again.'' \<and>
   trace (handleSupabaseCallback sample_env (GetSession (Some sample_session) None)
            backend_accepts fresh) = []"
proof -
  have a: "getItem fresh ''oauth_params'' = None" "trace fresh = []" "trace returned = []"
    by (simp_all add: fresh_def returned_def getItem_def)
  from callback_gates_in_order [of sample_env None backend_accepts returned]
       callback_gates_in_order [of sample_env None backend_accepts fresh _ sample_session] a
  show ?thesis by simp
qed

section \<open>The callback after its gates\<close>

lemma posts_append: "posts (xs @ ys) = posts xs @ posts ys"
  by (induction xs rule: posts.induct) simp_all

lemma navigations_append: "navigations (xs @ ys) = navigations xs @ navigations ys"
  by (induction xs rule: navigations.induct) simp_all

lemma callback_fulfilled:
  assumes "getItem c ''oauth_params'' = Some stored" "stored \<noteq> []"
    and "JSON_parse stored = Some params"
    and "axios_post (callback_request env s params) = PostFulfilled response"
  shows "handleSupabaseCallback env (GetSession (Some s) None) axios_post c =
           c\<lparr>isLoading := True, error := None,
              sessionStorage := (sessionStorage c)(''oauth_params'' := None),
              trace := trace c @
                [AxiosPost (callback_request env s params), RemoveItem ''oauth_params'',
                 Navigate (''/payment?redirect_uri='' @
                           encodeURIComponent (or_else (obj_get params ''redirect_uri'') []))]\<rparr>"
  using assms
  by (simp add: handleSupabaseCallback_def Let_def getItem_def emit_def removeItem_def)

lemma callback_rejected:
  assumes "getItem c ''oauth_params'' = Some stored" "stored \<noteq> []"
    and "JSON_parse stored = Some params"
    and "axios_post (callback_request env s params) = PostAxiosError resp msg"
  shows "handleSupabaseCallback env (GetSession (Some s) None) axios_post c =
           c\<lparr>isLoading := False,
              error := Some (''Authentication failed ('' @ status_text resp @ ''): '' @
                             error_message resp msg),
              trace := trace c @ [AxiosPost (callback_request env s params)]\<rparr>"
  using assms
  by (simp add: handleSupabaseCallback_def Let_def getItem_def emit_def)

lemma callback_posts_once:
  assumes "getItem c ''oauth_params'' = Some stored" "stored \<noteq> []"
    and "JSON_parse stored = Some params"
  shows "posts (trace (handleSupabaseCallback env (GetSession (Some s) None) axios_post c)) =
           posts (trace c) @ [callback_request env s params]"
  using assms
  by (cases "axios_post (callback_request env s params)")
    (simp_all add: handleSupabaseCallback_def Let_def getItem_def emit_def removeItem_def
      unexpected_def posts_append)

lemma callback_posts_once_Oauth_tsx:
  assumes "getItem c ''oauth_params'' = Some stored" "stored \<noteq> []"
    and "JSON_parse stored = Some params"
    and "new_URL b ''/callback'' (or_else (VITE_BACKEND_URL b) ''http://localhost:3000'') = Some url"
  shows "posts (trace (handleSupabaseCallback_Oauth_tsx b (GetSession (Some s) None) axios_post c)) =
           posts (trace c) @ [callback_request_Oauth_tsx url s params]"
  using assms
  by (cases "axios_post (callback_request_Oauth_tsx url s params)")
    (simp_all add: handleSupabaseCallback_Oauth_tsx_def Let_def getItem_def emit_def
      removeItem_def unexpected_def posts_append split: option.split)

lemma callback_without_address_Oauth_tsx:
  assumes "getItem c ''oauth_params'' = Some stored" "stored \<noteq> []"
    and "JSON_parse stored = Some params"
    and "new_URL b ''/callback'' (or_else (VITE_BACKEND_URL b) ''http://localhost:3000'') = None"
  shows "handleSupabaseCallback_Oauth_tsx b (GetSession (Some s) None) axios_post c =
           c\<lparr>isLoading := False,
              error := Some ''An unexpected error occurred during authentication''\<rparr>"
  using assms
  by (simp add: handleSupabaseCallback_Oauth_tsx_def Let_def getItem_def unexpected_def)

lemma callback_fulfilled_Oauth_tsx:
  assumes "getItem c ''oauth_params'' = Some stored" "stored \<noteq> []"
    and "JSON_parse stored = Some params"
    and "new_URL b ''/callback'' (or_else (VITE_BACKEND_URL b) ''http://localhost:3000'') = Some url"
    and "axios_post (callback_request_Oauth_tsx url s params) = PostFulfilled data"
  shows "sessionStorage (handleSupabaseCallback_Oauth_tsx b (GetSession (Some s) None) axios_post c) =
           (sessionStorage c)(''oauth_params'' := None) \<and>
         navigations (trace (handleSupabaseCallback_Oauth_tsx b (GetSession (Some s) None) axios_post c)) =
           navigations (trace c) @
           (case data of
              None \<Rightarrow> []
            | Some response \<Rightarrow>
                (case redirectUrl response of
                   None \<Rightarrow> []
                 | Some u \<Rightarrow> if u = [] then [] else [u])) \<and>
         error (handleSupabaseCallback_Oauth_tsx b (GetSession (Some s) None) axios_post c) =
           (case data of
              None \<Rightarrow> Some ''An unexpected error occurred during authentication''
            | Some response \<Rightarrow> None)"
  using assms
  by (simp add: handleSupabaseCallback_Oauth_tsx_def Let_def getItem_def emit_def removeItem_def
      unexpected_def navigations_append truthy_def or_else_def split: option.split)

lemma callback_rejected_Oauth_tsx:
  assumes "getItem c ''oauth_params'' = Some stored" "stored \<noteq> []"
    and "JSON_parse stored = Some params"
    and "new_URL b ''/callback'' (or_else (VITE_BACKEND_URL b) ''http://localhost:3000'') = Some url"
    and "axios_post (callback_request_Oauth_tsx url s params) = PostAxiosError resp msg"
  shows "handleSupabaseCallback_Oauth_tsx b (GetSession (Some s) None) axios_post c =
           c\<lparr>isLoading := False,
              error := Some (''Authentication failed: '' @ error_message resp msg),
              trace := trace c @ [AxiosPost (callback_request_Oauth_tsx url s params)]\<rparr>"
  using assms
  by (simp add: handleSupabaseCallback_Oauth_tsx_def Let_def getItem_def emit_def)

lemma returned_context:
  "getItem returned ''oauth_params'' = Some (JSON_stringify (OAuthParams_entries (capture sample_query)))"
  "trace returned = []" "error returned = None"
proof -
  have "sessionStorage after_login =
      (sessionStorage (useEffect ''/authorize'' sample_query id fresh))
        (''oauth_params'' \<mapsto> JSON_stringify (OAuthParams_entries (capture sample_query)))"
    unfolding after_login_def handleLogin_def
    using login_with_request [OF capture_sample] by simp
  then show "getItem returned ''oauth_params'' =
      Some (JSON_stringify (OAuthParams_entries (capture sample_query)))"
    by (simp add: returned_def getItem_def)
  show "trace returned = []" "error returned = None"
    by (simp_all add: returned_def fresh_def)
qed

lemma returned_Oauth_tsx_context:
  "getItem returned_Oauth_tsx ''oauth_params'' =
     Some (JSON_stringify (OAuthParams_entries (capture sample_query)))"
  "trace returned_Oauth_tsx = []" "error returned_Oauth_tsx = None"
proof -
  have "sessionStorage after_login_Oauth_tsx =
      (sessionStorage (useEffect ''/authorize'' sample_query id fresh))
        (''oauth_params'' \<mapsto> JSON_stringify (OAuthParams_entries (capture sample_query)))"
    unfolding after_login_Oauth_tsx_def handleLogin_Oauth_tsx_def
    using login_with_request [OF capture_sample] by simp
  then show "getItem returned_Oauth_tsx ''oauth_params'' =
      Some (JSON_stringify (OAuthParams_entries (capture sample_query)))"
    by (simp add: returned_Oauth_tsx_def getItem_def)
  show "trace returned_Oauth_tsx = []" "error returned_Oauth_tsx = None"
    by (simp_all add: returned_Oauth_tsx_def fresh_def)
qed

lemma sample_address:
  "new_URL sample_Oauth_tsx_env ''/callback''
     (or_else (VITE_BACKEND_URL sample_Oauth_tsx_env) ''http://localhost:3000'') =
   Some (''https://api.test'', ''/callback'')"
  by (simp add: sample_Oauth_tsx_env_def sample_new_URL_def or_else_def)

lemma capture_sample_redirect: "redirect_uri (capture sample_query) = Some ''https://x.test/done''"
  by (simp add: capture_def sample_query_def searchParams_get_def)

lemma obj_get_redirect_uri: "obj_get (OAuthParams_entries p) ''redirect_uri'' = redirect_uri p"
  by (simp add: obj_get_def OAuthParams_entries_def)

text \<open>
  C1, as the claim states it: whenever a response to the POST arrives, the stored request
  is cleared and the router goes to the payment page. A backend that answers with status
  500 has answered; axios rejects, the handler shows the error with the status and the
  message of the response, the stored request stays and no navigation happens.
\<close>

theorem response_with_error_status_counterexample:
  "backend_refuses (callback_request sample_env sample_session
       (OAuthParams_entries (capture sample_query))) =
     PostAxiosError (Some \<lparr>status = 500, data_message = Some ''boom''\<rparr>)
       ''Request failed with status code 500'' \<and>
   getItem (handleSupabaseCallback sample_env (GetSession (Some sample_session) None)
              backend_refuses returned) ''oauth_params'' =
     Some (JSON_stringify (OAuthParams_entries (capture sample_query))) \<and>
   navigations (trace (handleSupabaseCallback sample_env (GetSession (Some sample_session) None)
              backend_refuses returned)) = [] \<and>
   error (handleSupabaseCallback sample_env (GetSession (Some sample_session) None)
              backend_refuses returned) = Some ''Authentication failed (500): boom''"
proof -
  have refused: "backend_refuses (callback_request sample_env sample_session
       (OAuthParams_entries (capture sample_query))) =
     PostAxiosError (Some \<lparr>status = 500, data_message = Some ''boom''\<rparr>)
       ''Request failed with status code 500''"
    by (simp add: backend_refuses_def)
  have shown: "status_text (Some \<lparr>status = 500, data_message = Some ''boom''\<rparr>) = ''500''"
    by code_simp
  have said: "error_message (Some \<lparr>status = 500, data_message = Some ''boom''\<rparr>)
      ''Request failed with status code 500'' = ''boom''"
    by (simp add: error_message_def or_else_def)
  from callback_rejected [where axios_post = backend_refuses, OF returned_context(1) JSON_stringify_nonempty
      OAuthParams_roundtrip refused]
  show ?thesis
    by (simp add: refused shown said getItem_def returned_context [unfolded getItem_def]
        posts_append navigations_append)
qed

text \<open>
  C1, amended. When the session is there, the request stored by the login is under
  \<^verbatim>\<open>oauth_params\<close> and the POST is fulfilled (axios resolves: a response with a success status
  arrived within the timeout), then, whatever the body of that response says, the entry is
  removed, in both files. In \<^verbatim>\<open>src/unnamed/part_001\<close> the router then goes to
  \<^verbatim>\<open>/payment?redirect_uri=\<close> followed by \<^verbatim>\<open>encodeURIComponent\<close> of the request's
  \<^verbatim>\<open>redirect_uri\<close>, and no error is set. In \<^verbatim>\<open>src/src/components/Oauth.tsx\<close> there is no
  payment page to go to: the location is set to the \<^verbatim>\<open>redirectUrl\<close> of the response when the
  response has a non-empty one, and nothing navigates otherwise.
\<close>

theorem fulfilled_post_clears_and_goes_to_payment:
  assumes "getItem c ''oauth_params'' = Some (JSON_stringify (OAuthParams_entries p))"
    and "axios_post (callback_request env s (OAuthParams_entries p)) = PostFulfilled response"
  shows "getItem (handleSupabaseCallback env (GetSession (Some s) None) axios_post c)
           ''oauth_params'' = None \<and>
         trace (handleSupabaseCallback env (GetSession (Some s) None) axios_post c) =
           trace c @
           [AxiosPost (callback_request env s (OAuthParams_entries p)),
            RemoveItem ''oauth_params'',
            Navigate (''/payment?redirect_uri='' @
                      encodeURIComponent (case redirect_uri p of None \<Rightarrow> [] | Some u \<Rightarrow> u))] \<and>
         error (handleSupabaseCallback env (GetSession (Some s) None) axios_post c) = None \<and>
         (getItem c' ''oauth_params'' = Some (JSON_stringify (OAuthParams_entries p)) \<and>
          new_URL b ''/callback'' (or_else (VITE_BACKEND_URL b) ''http://localhost:3000'') = Some url \<and>
          axios_post' (callback_request_Oauth_tsx url s (OAuthParams_entries p)) = PostFulfilled data
          \<longrightarrow>
            getItem (handleSupabaseCallback_Oauth_tsx b (GetSession (Some s) None) axios_post' c')
              ''oauth_params'' = None \<and>
            navigations
              (trace (handleSupabaseCallback_Oauth_tsx b (GetSession (Some s) None) axios_post' c')) =
              navigations (trace c') @
              (case data of
                 None \<Rightarrow> []
               | Some answer \<Rightarrow>
                   (case redirectUrl answer of
                      None \<Rightarrow> []
                    | Some u \<Rightarrow> if u = [] then [] else [u])))"
proof -
  have target: "or_else (redirect_uri p) [] = (case redirect_uri p of None \<Rightarrow> [] | Some u \<Rightarrow> u)"
    by (simp add: or_else_def split: option.split)
  have later: "getItem (handleSupabaseCallback env (GetSession (Some s) None) axios_post c)
           ''oauth_params'' = None \<and>
         trace (handleSupabaseCallback env (GetSession (Some s) None) axios_post c) =
           trace c @
           [AxiosPost (callback_request env s (OAuthParams_entries p)),
            RemoveItem ''oauth_params'',
            Navigate (''/payment?redirect_uri='' @
                      encodeURIComponent (case redirect_uri p of None \<Rightarrow> [] | Some u \<Rightarrow> u))] \<and>
         error (handleSupabaseCallback env (GetSession (Some s) None) axios_post c) = None"
    using callback_fulfilled [where axios_post = axios_post, OF assms(1) JSON_stringify_nonempty
        OAuthParams_roundtrip assms(2)]
    by (simp add: getItem_def obj_get_redirect_uri target)
  have earlier: "getItem (handleSupabaseCallback_Oauth_tsx b (GetSession (Some s) None) axios_post' c')
              ''oauth_params'' = None \<and>
            navigations
              (trace (handleSupabaseCallback_Oauth_tsx b (GetSession (Some s) None) axios_post' c')) =
              navigations (trace c') @
              (case data of
                 None \<Rightarrow> []
               | Some answer \<Rightarrow>
                   (case redirectUrl answer of
                      None \<Rightarrow> []
                    | Some u \<Rightarrow> if u = [] then [] else [u]))"
    if "getItem c' ''oauth_params'' = Some (JSON_stringify (OAuthParams_entries p))"
      and "new_URL b ''/callback'' (or_else (VITE_BACKEND_URL b) ''http://localhost:3000'') = Some url"
      and "axios_post' (callback_request_Oauth_tsx url s (OAuthParams_entries p)) = PostFulfilled data"
    using callback_fulfilled_Oauth_tsx [where axios_post = axios_post', OF that(1)
        JSON_stringify_nonempty OAuthParams_roundtrip that(2) that(3)]
    by (simp add: getItem_def)
  from later earlier show ?thesis by blast
qed

theorem fulfilled_post_clears_and_goes_to_payment_witness:
  "getItem returned ''oauth_params'' \<noteq> None \<and>
   getItem (handleSupabaseCallback sample_env (GetSession (Some sample_session) None)
              backend_accepts returned) ''oauth_params'' = None \<and>
   navigations (trace (handleSupabaseCallback sample_env (GetSession (Some sample_session) None)
              backend_accepts returned)) =
     [''/payment?redirect_uri=https%3A%2F%2Fx.test%2Fdone''] \<and>
   error (handleSupabaseCallback sample_env (GetSession (Some sample_session) None)
              backend_accepts returned) = None \<and>
   getItem returned_Oauth_tsx ''oauth_params'' \<noteq> None \<and>
   getItem (handleSupabaseCallback_Oauth_tsx sample_Oauth_tsx_env
              (GetSession (Some sample_session) None) backend_redirects returned_Oauth_tsx)
     ''oauth_params'' = None \<and>
   navigations (trace (handleSupabaseCallback_Oauth_tsx sample_Oauth_tsx_env
              (GetSession (Some sample_session) None) backend_redirects returned_Oauth_tsx)) =
     [''https://x.test/done?code=c1'']"
proof -
  have accepted: "backend_accepts (callback_request sample_env sample_session
       (OAuthParams_entries (capture sample_query))) =
     PostFulfilled (Some \<lparr>success = False, message = None, redirectUrl = None\<rparr>)"
    by (simp add: backend_accepts_def)
  have redirected: "backend_redirects (callback_request_Oauth_tsx (''https://api.test'', ''/callback'')
       sample_session (OAuthParams_entries (capture sample_query))) =
     PostFulfilled (Some \<lparr>success = True, message = None,
                           redirectUrl = Some ''https://x.test/done?code=c1''\<rparr>)"
    by (simp add: backend_redirects_def)
  have encoded: "encodeURIComponent ''https://x.test/done'' = ''https%3A%2F%2Fx.test%2Fdone''"
    by code_simp
  from fulfilled_post_clears_and_goes_to_payment [where axios_post = backend_accepts
      and axios_post' = backend_redirects and b = sample_Oauth_tsx_env
      and c' = returned_Oauth_tsx, OF returned_context(1) accepted] sample_address redirected
  show ?thesis
    by (simp add: returned_context returned_Oauth_tsx_context capture_sample_redirect encoded)
qed

section \<open>The callback address\<close>

lemma searchParams_set_new: "k \<notin> fst ` set qs \<Longrightarrow> searchParams_set k v qs = qs @ [(k, v)]"
  by (induction qs) auto

lemma fold_add_param:
  "distinct (map fst (searchParams u) @ map fst ms) \<Longrightarrow>
   fold add_param ms u = u\<lparr>searchParams := searchParams u @ [(k, v). (k, Some v) \<leftarrow> ms, v \<noteq> []]\<rparr>"
proof (induction ms arbitrary: u)
  case Nil
  show ?case by simp
next
  case (Cons m ms)
  obtain k v where m: "m = (k, v)" by (cases m)
  have new: "k \<notin> fst ` set (searchParams u)"
    using Cons.prems by (auto simp: m)
  have keys: "fst ` set (searchParams (add_param m u)) \<subseteq> insert k (fst ` set (searchParams u))"
    by (auto simp: add_param_def m searchParams_set_new [OF new] split: option.splits)
  have "distinct (map fst (searchParams (add_param m u)) @ map fst ms)"
  proof -
    have "distinct (map fst (searchParams (add_param m u)))"
      using Cons.prems new
      by (auto simp: add_param_def m searchParams_set_new [OF new] split: option.splits)
    moreover have "distinct (map fst ms)" using Cons.prems by simp
    moreover have "insert k (fst ` set (searchParams u)) \<inter> fst ` set ms = {}"
      using Cons.prems by (auto simp: m)
    then have "fst ` set (searchParams (add_param m u)) \<inter> fst ` set ms = {}"
      using keys by blast
    ultimately show ?thesis by simp
  qed
  from Cons.IH [OF this] show ?case
    by (cases v) (simp_all add: add_param_def m searchParams_set_new [OF new])
qed

lemma add_params_entries:
  "fold add_param (OAuthParams_entries p) \<lparr>base = b, pathname = path, searchParams = []\<rparr> =
     \<lparr>base = b, pathname = path,
      searchParams = [(k, v). (k, Some v) \<leftarrow> OAuthParams_entries p, v \<noteq> []]\<rparr>"
  by (subst fold_add_param) (simp_all add: OAuthParams_keys)

lemma callbackUrl_entries:
  "callbackUrl b (OAuthParams_entries p) =
     \<lparr>base = b, pathname = ''/callback'',
      searchParams = [(k, v). (k, Some v) \<leftarrow> OAuthParams_entries p, v \<noteq> []]\<rparr>"
  unfolding callbackUrl_def by (rule add_params_entries)

lemma non_empty_members:
  "(k, v) \<in> set [(k, v). (k, Some v) \<leftarrow> ms, v \<noteq> []] \<longleftrightarrow> v \<noteq> [] \<and> (k, Some v) \<in> set ms"
  by (induction ms) (auto split: option.splits)

text \<open>
  C6. With the request that the login stored under \<^verbatim>\<open>oauth_params\<close> and a session, the
  callback makes one POST, to the text of a URL whose query holds, in the order of the
  fields, one parameter for each field of the request that is neither \<^verbatim>\<open>null\<close> nor empty,
  under the field's name and with its value, and nothing else. In \<^verbatim>\<open>src/unnamed/part_001\<close>
  the URL is the constant backend address followed by the path \<^verbatim>\<open>/callback\<close>. In
  \<^verbatim>\<open>src/src/components/Oauth.tsx\<close> it is what the URL constructor gives for \<^verbatim>\<open>/callback\<close>
  against the configured backend address (\<^verbatim>\<open>VITE_BACKEND_URL\<close>, or \<^verbatim>\<open>http://localhost:3000\<close>
  without it); when the constructor throws, no POST is made.
\<close>

theorem callback_url_echoes_request:
  assumes "getItem c ''oauth_params'' = Some (JSON_stringify (OAuthParams_entries p))"
  shows "map post_url
           (posts (trace (handleSupabaseCallback env (GetSession (Some s) None) axios_post c))) =
         map post_url (posts (trace c)) @
           [URL_toString
              \<lparr>base = ''https://remote-ga4-mcp-229250458092.us-central1.run.app'',
               pathname = ''/callback'',
               searchParams = [(k, v). (k, Some v) \<leftarrow> OAuthParams_entries p, v \<noteq> []]\<rparr>] \<and>
         (new_URL b ''/callback'' (or_else (VITE_BACKEND_URL b) ''http://localhost:3000'') = Some url
          \<longrightarrow>
            map post_url
              (posts (trace (handleSupabaseCallback_Oauth_tsx b (GetSession (Some s) None)
                               axios_post c))) =
            map post_url (posts (trace c)) @
              [URL_toString
                 \<lparr>base = fst url, pathname = snd url,
                  searchParams = [(k, v). (k, Some v) \<leftarrow> OAuthParams_entries p, v \<noteq> []]\<rparr>]) \<and>
         (new_URL b ''/callback'' (or_else (VITE_BACKEND_URL b) ''http://localhost:3000'') = None
          \<longrightarrow>
            posts (trace (handleSupabaseCallback_Oauth_tsx b (GetSession (Some s) None)
                            axios_post c)) = posts (trace c)) \<and>
         (\<forall>k v. (k, v) \<in> set [(k, v). (k, Some v) \<leftarrow> OAuthParams_entries p, v \<noteq> []] \<longleftrightarrow>
                  v \<noteq> [] \<and> (k, Some v) \<in> set (OAuthParams_entries p))"
proof -
  note once = callback_posts_once [OF assms JSON_stringify_nonempty OAuthParams_roundtrip]
  have later: "map post_url
           (posts (trace (handleSupabaseCallback env (GetSession (Some s) None) axios_post c))) =
         map post_url (posts (trace c)) @
           [URL_toString
              \<lparr>base = ''https://remote-ga4-mcp-229250458092.us-central1.run.app'',
               pathname = ''/callback'',
               searchParams = [(k, v). (k, Some v) \<leftarrow> OAuthParams_entries p, v \<noteq> []]\<rparr>]"
    by (simp add: once callback_request_def callbackUrl_entries backendUrl_def)
  have earlier: "map post_url
              (posts (trace (handleSupabaseCallback_Oauth_tsx b (GetSession (Some s) None)
                               axios_post c))) =
            map post_url (posts (trace c)) @
              [URL_toString
                 \<lparr>base = fst url, pathname = snd url,
                  searchParams = [(k, v). (k, Some v) \<leftarrow> OAuthParams_entries p, v \<noteq> []]\<rparr>]"
    if "new_URL b ''/callback'' (or_else (VITE_BACKEND_URL b) ''http://localhost:3000'') = Some url"
    using callback_posts_once_Oauth_tsx [OF assms JSON_stringify_nonempty OAuthParams_roundtrip that]
    by (simp add: callback_request_Oauth_tsx_def add_params_entries)
  have unposted: "posts (trace (handleSupabaseCallback_Oauth_tsx b (GetSession (Some s) None)
                            axios_post c)) = posts (trace c)"
    if "new_URL b ''/callback'' (or_else (VITE_BACKEND_URL b) ''http://localhost:3000'') = None"
    using callback_without_address_Oauth_tsx [OF assms JSON_stringify_nonempty
        OAuthParams_roundtrip that]
    by simp
  have members: "\<forall>k v. (k, v) \<in> set [(k, v). (k, Some v) \<leftarrow> OAuthParams_entries p, v \<noteq> []] \<longleftrightarrow>
                  v \<noteq> [] \<and> (k, Some v) \<in> set (OAuthParams_entries p)"
    by (intro allI) (rule non_empty_members)
  show ?thesis
    apply (intro conjI impI)
       apply (rule later)
      apply (erule earlier)
     apply (erule unposted)
    apply (rule members)
    done
qed

theorem callback_url_echoes_request_witness:
  "map post_url (posts (trace (handleSupabaseCallback sample_env
       (GetSession (Some sample_session) None) backend_accepts returned))) =
     [''https://remote-ga4-mcp-229250458092.us-central1.run.app/callback?client_id=abc&redirect_uri=https%3A%2F%2Fx.test%2Fdone&response_type=code''] \<and>
   VITE_BACKEND_URL sample_Oauth_tsx_env = Some ''https://api.test/'' \<and>
   map post_url (posts (trace (handleSupabaseCallback_Oauth_tsx sample_Oauth_tsx_env
       (GetSession (Some sample_session) None) backend_accepts returned_Oauth_tsx))) =
     [''https://api.test/callback?client_id=abc&redirect_uri=https%3A%2F%2Fx.test%2Fdone&response_type=code''] \<and>
   posts (trace (handleSupabaseCallback_Oauth_tsx
       \<lparr>VITE_BACKEND_URL = Some ''not a url'', new_URL = sample_new_URL\<rparr>
       (GetSession (Some sample_session) None) backend_accepts returned_Oauth_tsx)) = []"
proof -
  have fields: "[(k, v). (k, Some v) \<leftarrow> OAuthParams_entries (capture sample_query), v \<noteq> []] =
      [(''client_id'', ''abc''), (''redirect_uri'', ''https://x.test/done''),
       (''response_type'', ''code'')]"
    by (simp add: OAuthParams_entries_def capture_def sample_query_def searchParams_get_def)
  have shown: "URL_toString
      \<lparr>base = ''https://remote-ga4-mcp-229250458092.us-central1.run.app'',
       pathname = ''/callback'',
       searchParams = [(''client_id'', ''abc''), (''redirect_uri'', ''https://x.test/done''),
                       (''response_type'', ''code'')]\<rparr> =
      ''https://remote-ga4-mcp-229250458092.us-central1.run.app/callback?client_id=abc&redirect_uri=https%3A%2F%2Fx.test%2Fdone&response_type=code''"
    by code_simp
  have shown': "URL_toString
      \<lparr>base = ''https://api.test'', pathname = ''/callback'',
       searchParams = [(''client_id'', ''abc''), (''redirect_uri'', ''https://x.test/done''),
                       (''response_type'', ''code'')]\<rparr> =
      ''https://api.test/callback?client_id=abc&redirect_uri=https%3A%2F%2Fx.test%2Fdone&response_type=code''"
    by code_simp
  have unparsable: "new_URL \<lparr>VITE_BACKEND_URL = Some ''not a url'', new_URL = sample_new_URL\<rparr>
      ''/callback''
      (or_else (VITE_BACKEND_URL \<lparr>VITE_BACKEND_URL = Some ''not a url'', new_URL = sample_new_URL\<rparr>)
         ''http://localhost:3000'') = None"
    by (simp add: sample_new_URL_def or_else_def)
  note later = callback_url_echoes_request [where env = sample_env and s = sample_session
      and axios_post = backend_accepts, OF returned_context(1), THEN conjunct1]
  note earlier = callback_url_echoes_request [where b = sample_Oauth_tsx_env
      and url = "(''https://api.test'', ''/callback'')" and s = sample_session
      and axios_post = backend_accepts, OF returned_Oauth_tsx_context(1),
      THEN conjunct2, THEN conjunct1, THEN mp, OF sample_address]
  note unposted = callback_url_echoes_request [where
      b = "\<lparr>VITE_BACKEND_URL = Some ''not a url'', new_URL = sample_new_URL\<rparr>"
      and s = sample_session and axios_post = backend_accepts,
      OF returned_Oauth_tsx_context(1),
      THEN conjunct2, THEN conjunct2, THEN conjunct1, THEN mp, OF unparsable]
  have a: "map post_url (posts (trace (handleSupabaseCallback sample_env
       (GetSession (Some sample_session) None) backend_accepts returned))) =
     [''https://remote-ga4-mcp-229250458092.us-central1.run.app/callback?client_id=abc&redirect_uri=https%3A%2F%2Fx.test%2Fdone&response_type=code'']"
    using later by (simp add: returned_context fields shown)
  have b: "map post_url (posts (trace (handleSupabaseCallback_Oauth_tsx sample_Oauth_tsx_env
       (GetSession (Some sample_session) None) backend_accepts returned_Oauth_tsx))) =
     [''https://api.test/callback?client_id=abc&redirect_uri=https%3A%2F%2Fx.test%2Fdone&response_type=code'']"
    using earlier by (simp add: returned_Oauth_tsx_context fields shown')
  have c: "posts (trace (handleSupabaseCallback_Oauth_tsx
       \<lparr>VITE_BACKEND_URL = Some ''not a url'', new_URL = sample_new_URL\<rparr>
       (GetSession (Some sample_session) None) backend_accepts returned_Oauth_tsx)) = []"
    using unposted by (simp add: returned_Oauth_tsx_context)
  have d: "VITE_BACKEND_URL sample_Oauth_tsx_env = Some ''https://api.test/''"
    by (simp add: sample_Oauth_tsx_env_def)
  from a b c d show ?thesis by (intro conjI)
qed

section \<open>The stored request: written, read, cleared\<close>

text \<open>
  C5. The request that the login writes under \<^verbatim>\<open>oauth_params\<close> reads back, on the
  component mounted for the callback, as an object with the same seven fields; after
  \<^verbatim>\<open>removeItem\<close> the read gives \<^verbatim>\<open>null\<close>; and once a callback run has had its POST
  fulfilled, a callback run on a component mounted afterwards, with a session, finds
  nothing stored, makes no POST and sets the error
  \<^verbatim>\<open>OAuth session expired. Please try again.\<close>
\<close>

theorem context_roundtrip_and_single_use:
  assumes "oauthParams c = Some p"
    and "sessionStorage r = sessionStorage (handleLogin env signIn c)"
    and "axios_post (callback_request env s (OAuthParams_entries p)) = PostFulfilled response"
    and "sessionStorage d =
           sessionStorage (handleSupabaseCallback env (GetSession (Some s) None) axios_post r)"
  shows "map_option as_OAuthParams (Option.bind (getItem r ''oauth_params'') JSON_parse) = Some p \<and>
         Option.bind (getItem r ''oauth_params'') JSON_parse = Some (OAuthParams_entries p) \<and>
         getItem (removeItem ''oauth_params'' r) ''oauth_params'' = None \<and>
         getItem d ''oauth_params'' = None \<and>
         error (handleSupabaseCallback env' (GetSession (Some s') None) axios_post' d) =
           Some ''OAuth session expired. Please try again.'' \<and>
         posts (trace (handleSupabaseCallback env' (GetSession (Some s') None) axios_post' d)) =
           posts (trace d)"
proof -
  have stored: "getItem r ''oauth_params'' = Some (JSON_stringify (OAuthParams_entries p))"
    using login_with_request [OF assms(1)] assms(2)
    by (simp add: getItem_def handleLogin_def)
  have cleared: "getItem d ''oauth_params'' = None"
    using callback_fulfilled [where axios_post = axios_post, OF stored JSON_stringify_nonempty
        OAuthParams_roundtrip assms(3)] assms(4)
    by (simp add: getItem_def)
  show ?thesis
    by (simp add: stored OAuthParams_roundtrip as_OAuthParams_entries cleared
        callback_without_context [OF cleared])
      (simp add: getItem_def removeItem_def emit_def)
qed

theorem context_roundtrip_and_single_use_witness:
  "map_option as_OAuthParams (Option.bind (getItem returned ''oauth_params'') JSON_parse) =
     Some \<lparr>client_id = Some ''abc'', redirect_uri = Some ''https://x.test/done'',
           response_type = Some ''code'', state = None, code_challenge = None,
           code_challenge_method = None, scope = None\<rparr> \<and>
   getItem (handleSupabaseCallback sample_env (GetSession (Some sample_session) None)
              backend_accepts returned) ''oauth_params'' = None \<and>
   error (handleSupabaseCallback sample_env (GetSession (Some sample_session) None) backend_accepts
            (handleSupabaseCallback sample_env (GetSession (Some sample_session) None)
               backend_accepts returned)) =
     Some ''OAuth session expired. Please try again.''"
proof -
  have login: "sessionStorage returned =
      sessionStorage (handleLogin sample_env sign_in_ok (useEffect ''/authorize'' sample_query id fresh))"
    by (simp add: returned_def after_login_def)
  have accepted: "backend_accepts (callback_request sample_env sample_session
       (OAuthParams_entries (capture sample_query))) =
     PostFulfilled (Some \<lparr>success = False, message = None, redirectUrl = None\<rparr>)"
    by (simp add: backend_accepts_def)
  have captured: "capture sample_query =
      \<lparr>client_id = Some ''abc'', redirect_uri = Some ''https://x.test/done'',
       response_type = Some ''code'', state = None, code_challenge = None,
       code_challenge_method = None, scope = None\<rparr>"
    by (simp add: capture_def sample_query_def searchParams_get_def)
  from context_roundtrip_and_single_use [where axios_post = backend_accepts
      and axios_post' = backend_accepts, OF capture_sample login accepted refl,
      of sample_env sample_session]
  show ?thesis
    by (simp add: captured as_OAuthParams_entries)
qed

section \<open>The credentials in the payload\<close>

lemma credentials_extracted:
  "google_credentials (enhancedSessionData env s) =
     \<lparr>access_token = or_else (provider_token s) [],
      refresh_token = or_null (provider_refresh_token s),
      expires_in = (if session_expires_in s = 0 then 3600 else session_expires_in s),
      token_type = (if session_token_type s = [] then ''Bearer'' else session_token_type s),
      cred_scope = ''https://www.googleapis.com/auth/analytics.readonly''\<rparr>"
  by (simp add: enhancedSessionData_def Let_def)

lemma or_else_empty: "or_else v [] = (case v of None \<Rightarrow> [] | Some t \<Rightarrow> t)"
  by (simp add: or_else_def split: option.split)

text \<open>
  C8, as the claim states it: the scope among the Google credentials is the scope granted
  for the session. For a session granted everything the login asked for, the payload
  still says \<^verbatim>\<open>https://www.googleapis.com/auth/analytics.readonly\<close>.
\<close>

theorem credential_scope_counterexample:
  "granted_scope sample_session =
     ''openid email profile https://www.googleapis.com/auth/analytics.readonly https://www.googleapis.com/auth/analytics.manage.users.readonly'' \<and>
   cred_scope (google_credentials (enhancedSessionData sample_env sample_session)) =
     ''https://www.googleapis.com/auth/analytics.readonly'' \<and>
   cred_scope (google_credentials (enhancedSessionData sample_env sample_session)) \<noteq>
     granted_scope sample_session"
  by (simp add: credentials_extracted sample_session_def login_scopes_def)

text \<open>
  C8, amended. The Google credentials of the payload posted by the callback take from the
  session its provider token (the empty string when there is none), its provider refresh
  token (\<^verbatim>\<open>null\<close> when there is none or it is empty), its expiry in seconds (3600 when it is
  zero) and its token type (\<^verbatim>\<open>Bearer\<close> when it is empty); the scope is the constant
  \<^verbatim>\<open>https://www.googleapis.com/auth/analytics.readonly\<close>, whatever was granted.
\<close>

theorem credentials_from_session:
  "post_body (callback_request env s params) = EnhancedBody (enhancedSessionData env s) \<and>
   google_credentials (enhancedSessionData env s) =
     \<lparr>access_token = (case provider_token s of None \<Rightarrow> [] | Some t \<Rightarrow> t),
      refresh_token = (case provider_refresh_token s of None \<Rightarrow> None
                       | Some t \<Rightarrow> if t = [] then None else Some t),
      expires_in = (if session_expires_in s = 0 then 3600 else session_expires_in s),
      token_type = (if session_token_type s = [] then ''Bearer'' else session_token_type s),
      cred_scope = ''https://www.googleapis.com/auth/analytics.readonly''\<rparr> \<and>
   google_credentials (enhancedSessionData env (s\<lparr>granted_scope := g\<rparr>)) =
     google_credentials (enhancedSessionData env s)"
  by (simp add: callback_request_def credentials_extracted or_else_empty or_null_def)

theorem credentials_from_session_witness:
  "google_credentials (enhancedSessionData sample_env sample_session) =
     \<lparr>access_token = ''ya29.token'', refresh_token = None, expires_in = 3600,
      token_type = ''bearer'',
      cred_scope = ''https://www.googleapis.com/auth/analytics.readonly''\<rparr>"
  using credentials_from_session [of sample_env sample_session "[]" "[]"]
  by (simp add: sample_session_def)

section \<open>The way out of the error view\<close>

lemma goBack_Oauth_tsx_keeps_context:
  "sessionStorage (goBack_Oauth_tsx c) = sessionStorage c \<and>
   trace (goBack_Oauth_tsx c) = trace c @ [LocationHref ''/''] \<and>
   error (goBack_Oauth_tsx c) = None"
  by (simp add: goBack_Oauth_tsx_def emit_def)

text \<open>
  The button of the error view in \<^verbatim>\<open>src/unnamed/part_001\<close> removes what is stored under
  \<^verbatim>\<open>oauth_params\<close>, whatever it is, and then sets the location to the application root;
  the error is reset and nothing else in the storage changes.
\<close>

theorem goBack_clears_and_leaves:
  "sessionStorage (goBack c) ''oauth_params'' = None \<and>
   sessionStorage (goBack c) = (sessionStorage c)(''oauth_params'' := None) \<and>
   trace (goBack c) = trace c @ [RemoveItem ''oauth_params'', LocationHref ''/''] \<and>
   error (goBack c) = None"
  by (simp add: goBack_def emit_def removeItem_def)

theorem goBack_clears_and_leaves_witness:
  "sessionStorage after_login ''oauth_params'' \<noteq> None \<and>
   sessionStorage (goBack after_login) ''oauth_params'' = None \<and>
   last (trace (goBack after_login)) = LocationHref ''/''"
proof -
  have "sessionStorage after_login ''oauth_params'' \<noteq> None"
    by (simp add: after_login_def handleLogin_def login_with_def useEffect_def Let_def
        capture_def sample_query_def searchParams_get_def truthy_def fresh_def setItem_def
        emit_def sign_in_ok_def)
  with goBack_clears_and_leaves [of after_login] show ?thesis by simp
qed

text \<open>
  C9. The recovery action of the error view clears any stored request and goes to the
  application root. The button of \<^verbatim>\<open>src/src/components/Oauth.tsx\<close> does not clear: after a
  callback that the backend refused, the error view is shown and the request is still
  stored; the button sets the location to the root and the request stays stored. The button
  of \<^verbatim>\<open>src/unnamed/part_001\<close>, pressed in the same state, removes it.
\<close>

theorem goBack_Oauth_tsx_leaves_request:
  "render ''/auth/callback'' refused_Oauth_tsx = ErrorView ''Authentication failed: boom'' \<and>
   getItem refused_Oauth_tsx ''oauth_params'' =
     Some (JSON_stringify (OAuthParams_entries (capture sample_query))) \<and>
   getItem (goBack_Oauth_tsx refused_Oauth_tsx) ''oauth_params'' =
     Some (JSON_stringify (OAuthParams_entries (capture sample_query))) \<and>
   navigations (trace (goBack_Oauth_tsx refused_Oauth_tsx)) = [''/''] \<and>
   getItem (goBack refused_Oauth_tsx) ''oauth_params'' = None"
proof -
  have refused: "backend_refuses (callback_request_Oauth_tsx (''https://api.test'', ''/callback'')
       sample_session (OAuthParams_entries (capture sample_query))) =
     PostAxiosError (Some \<lparr>status = 500, data_message = Some ''boom''\<rparr>)
       ''Request failed with status code 500''"
    by (simp add: backend_refuses_def)
  have said: "error_message (Some \<lparr>status = 500, data_message = Some ''boom''\<rparr>)
      ''Request failed with status code 500'' = ''boom''"
    by (simp add: error_message_def or_else_def)
  have state: "refused_Oauth_tsx =
      returned_Oauth_tsx\<lparr>isLoading := False,
        error := Some ''Authentication failed: boom'',
        trace := trace returned_Oauth_tsx @
           [AxiosPost (callback_request_Oauth_tsx (''https://api.test'', ''/callback'')
              sample_session (OAuthParams_entries (capture sample_query)))]\<rparr>"
    unfolding refused_Oauth_tsx_def
    using callback_rejected_Oauth_tsx [where axios_post = backend_refuses,
        OF returned_Oauth_tsx_context(1) JSON_stringify_nonempty OAuthParams_roundtrip
        sample_address refused]
    by (simp add: said)
  have stored: "sessionStorage returned_Oauth_tsx ''oauth_params'' =
      Some (JSON_stringify (OAuthParams_entries (capture sample_query)))"
    using returned_Oauth_tsx_context(1) by (simp add: getItem_def)
  show ?thesis
    unfolding state
    by (simp add: render_def truthy_def or_else_def getItem_def stored
        goBack_Oauth_tsx_keeps_context navigations_append returned_Oauth_tsx_context
        goBack_def emit_def removeItem_def)
qed

section \<open>What the payment page does\<close>

lemma handler_cases:
  "handler env redirectUri fetch response =
     Fetch (verification_request response) #
     (case fetch (verification_request response) of
        FetchRejects err \<Rightarrow> [Alert (''Payment verification failed: '' @ err)]
      | JsonRejects err \<Rightarrow> [Alert (''Payment verification failed: '' @ err)]
      | JsonData data \<Rightarrow>
          if status_of data = Some (JString ''success'') then [LocationHref redirectUri]
          else if data = JNull then [Alert (''Payment verification failed: '' @ null_status_error env)]
          else [Alert ''Payment verification failed''])"
  by (auto simp: handler_def Let_def status_of_def split: fetch_result.splits)

text \<open>
  C2. The handler of the payment page sets the location, and then to the forwarded
  \<^verbatim>\<open>redirect_uri\<close>, exactly when the verification request came back with JSON whose \<^verbatim>\<open>status\<close>
  is the string \<^verbatim>\<open>success\<close>. In every other case (another value, a status that is missing
  or not a string, a body that is \<^verbatim>\<open>null\<close> or not JSON, a request that failed) it goes
  nowhere and shows one alert.
\<close>

theorem redirect_only_on_verified_success:
  "navigations (handler env redirectUri fetch response) =
     (if \<exists>d. fetch (verification_request response) = JsonData d \<and>
              status_of d = Some (JString ''success'')
      then [redirectUri] else []) \<and>
   length (alerts (handler env redirectUri fetch response)) =
     (if \<exists>d. fetch (verification_request response) = JsonData d \<and>
              status_of d = Some (JString ''success'')
      then 0 else 1)"
  unfolding handler_cases
  by (cases "fetch (verification_request response)") auto

theorem redirect_only_on_verified_success_witness:
  "navigations (handler sample_payment_env ''https://x.test/done'' verifier_says_success
      sample_payment) = [''https://x.test/done''] \<and>
   navigations (handler sample_payment_env ''https://x.test/done'' verifier_says_failed
      sample_payment) = [] \<and>
   length (alerts (handler sample_payment_env ''https://x.test/done'' verifier_says_failed
      sample_payment)) = 1 \<and>
   navigations (handler sample_payment_env ''https://x.test/done'' verifier_without_status
      sample_payment) = [] \<and>
   length (alerts (handler sample_payment_env ''https://x.test/done'' verifier_without_status
      sample_payment)) = 1 \<and>
   navigations (handler sample_payment_env ''https://x.test/done'' verifier_unreachable
      sample_payment) = [] \<and>
   length (alerts (handler sample_payment_env ''https://x.test/done'' verifier_unreachable
      sample_payment)) = 1"
  using
    redirect_only_on_verified_success [of sample_payment_env "''https://x.test/done''"
      verifier_says_success sample_payment]
    redirect_only_on_verified_success [of sample_payment_env "''https://x.test/done''"
      verifier_says_failed sample_payment]
    redirect_only_on_verified_success [of sample_payment_env "''https://x.test/done''"
      verifier_without_status sample_payment]
    redirect_only_on_verified_success [of sample_payment_env "''https://x.test/done''"
      verifier_unreachable sample_payment]
  by (simp add: verifier_says_success_def verifier_says_failed_def verifier_without_status_def
      verifier_unreachable_def status_of_def)

text \<open>
  C10. Reached without a \<^verbatim>\<open>redirect_uri\<close> parameter, the payment page takes the empty
  string as its redirect target, and a payment verified as \<^verbatim>\<open>success\<close> then sets the
  location to the empty string and shows no alert.
\<close>

theorem missing_redirect_uri_defaults_to_empty:
  assumes "searchParams_get query ''redirect_uri'' = None"
    and "fetch (verification_request response) = JsonData d"
    and "status_of d = Some (JString ''success'')"
  shows "Payment_redirectUri query = [] \<and>
         handler env (Payment_redirectUri query) fetch response =
           [Fetch (verification_request response), LocationHref []]"
  using assms by (simp add: Payment_redirectUri_def or_else_def handler_cases)

theorem missing_redirect_uri_defaults_to_empty_witness:
  "searchParams_get [] ''redirect_uri'' = None \<and>
   Payment_redirectUri [] = [] \<and>
   navigations (handler sample_payment_env (Payment_redirectUri []) verifier_says_success
      sample_payment) = [[]] \<and>
   alerts (handler sample_payment_env (Payment_redirectUri []) verifier_says_success
      sample_payment) = []"
proof -
  have none: "searchParams_get [] ''redirect_uri'' = None"
    by (simp add: searchParams_get_def)
  have ok: "verifier_says_success (verification_request sample_payment) =
      JsonData (JObject [(''status'', JString ''success'')])"
    by (simp add: verifier_says_success_def)
  have st: "status_of (JObject [(''status'', JString ''success'')]) = Some (JString ''success'')"
    by (simp add: status_of_def)
  from missing_redirect_uri_defaults_to_empty [where fetch = verifier_says_success,
      OF none ok st, of sample_payment_env] none
  show ?thesis by auto
qed

end
